theory Spec2Isabelle
  imports Complex_Main
begin

section \<open>The PGVector adapter of mem0\<close>

text \<open>
  A shallow embedding of \<^verbatim>\<open>mem0/vector_stores/pgvector.py\<close>. The adapter is modelled as
  it is written: each method is a function on an explicit world (the backend's data, the
  connection's open transaction and a trace of what the adapter did), raising is a value
  of a sum type, and the statements the adapter sends are values of a datatype whose
  constructors are the statement templates of the source and whose arguments are the
  interpolated names and the bound parameters.

  The relational engine is outside the adapter. Its part of the model is the meaning of
  the statements the adapter sends, with the column types that the adapter's own DDL
  declares: \<^verbatim>\<open>id UUID PRIMARY KEY\<close> (an identifier that the engine does not read as a
  UUID is refused, identifiers are stored and compared as UUIDs and printed in the
  canonical form), \<^verbatim>\<open>vector(n)\<close> (a vector of another length is refused) and
  \<^verbatim>\<open>USING hnsw\<close> (refused above 2000 dimensions). A filter reads payload fields as text,
  search orders by a distance and cuts at a row limit. The distance operator and the
  size report belong to the engine and are fields of the world. Queries are answered
  by an exact scan of the table in its stored order: an index is recorded but does not
  change an answer. Tables and indexes are named apart.
\<close>

subsection \<open>Python values and exceptions\<close>

text \<open>Scalar values of payloads and filters, with Python's \<^verbatim>\<open>str()\<close>.\<close>

datatype pyval = PNone | PBool bool | PInt int | PStr string

type_synonym pydict = "(string \<times> pyval) list"

type_synonym vector = "real list"

fun dec_nat :: "nat \<Rightarrow> string" where
  "dec_nat n =
     (if n < 10 then [''0123456789'' ! n]
      else dec_nat (n div 10) @ [''0123456789'' ! (n mod 10)])"

declare dec_nat.simps [simp del]

definition dec_int :: "int \<Rightarrow> string" where
  "dec_int i = (if i < 0 then CHR ''-'' # dec_nat (nat (- i)) else dec_nat (nat i))"

fun py_str :: "pyval \<Rightarrow> string" where
  "py_str PNone = ''None''"
| "py_str (PBool b) = (if b then ''True'' else ''False'')"
| "py_str (PInt i) = dec_int i"
| "py_str (PStr s) = s"

text \<open>
  The exceptions the model distinguishes. \<open>KeyboardInterrupt\<close> stands for the
  exceptions that derive from \<^verbatim>\<open>BaseException\<close> only: \<^verbatim>\<open>except Exception\<close> does not
  catch them.
\<close>

datatype exn = TypeError string | StatementError string | KeyboardInterrupt

fun is_Exception :: "exn \<Rightarrow> bool" where
  "is_Exception KeyboardInterrupt = False"
| "is_Exception _ = True"

fun join :: "string \<Rightarrow> string list \<Rightarrow> string" where
  "join sep [] = []"
| "join sep [x] = x"
| "join sep (x # y # ys) = x @ sep @ join sep (y # ys)"

subsection \<open>The filter clause of search and list\<close>

text \<open>
  \<^verbatim>\<open>
  filter_conditions = []
  filter_params = []
  if filters:
      for k, v in filters.items():
          filter_conditions.append("payload->>%s = %s")
          filter_params.extend([k, str(v)])
  filter_clause = "WHERE " + " AND ".join(filter_conditions) if filter_conditions else ""
  \<close>
  The same lines stand in \<^verbatim>\<open>search\<close> and in \<^verbatim>\<open>list\<close>. A dict is an association list in
  insertion order; \<^verbatim>\<open>if filters:\<close> is false for \<^verbatim>\<open>None\<close> and for the empty dict.
\<close>

fun filter_items :: "pydict \<Rightarrow> string list \<times> string list \<Rightarrow> string list \<times> string list" where
  "filter_items [] acc = acc"
| "filter_items ((k, v) # kvs) (filter_conditions, filter_params) =
     filter_items kvs (filter_conditions @ [''payload->>%s = %s''], filter_params @ [k, py_str v])"

definition filter_lists :: "pydict option \<Rightarrow> string list \<times> string list" where
  "filter_lists filters =
     (case filters of
        None \<Rightarrow> ([], [])
      | Some d \<Rightarrow> if d \<noteq> [] then filter_items d ([], []) else ([], []))"

definition filter_clause :: "string list \<Rightarrow> string" where
  "filter_clause filter_conditions =
     (if filter_conditions \<noteq> [] then ''WHERE '' @ join '' AND '' filter_conditions else '''')"


subsection \<open>The backend: tables, statements and their meaning\<close>

record row =
  row_id :: string
  row_vector :: vector
  row_payload :: "pydict option"

datatype index_method = Diskann | Hnsw

record table =
  tbl_dims :: int
  tbl_rows :: "row list"
  tbl_indexes :: "(string \<times> index_method) list"

record db =
  extensions :: "string list"
  tables :: "(string \<times> table) list"

text \<open>
  One constructor per statement template of the source. The arguments are the names the
  source interpolates into the text (collection name, filter clause) and the parameters
  it binds. \<open>Insert\<close> stands for both insert templates (one row per execution under
  psycopg3's \<^verbatim>\<open>executemany\<close>, a page of rows under psycopg2's \<^verbatim>\<open>execute_values\<close>).
\<close>

datatype stmt =
    CreateExtension string
  | CreateTable string int
  | SelectExtension string
  | CreateIndex string string index_method
  | Insert string "(string \<times> vector \<times> pydict option) list"
  | SelectSearch string string vector "string list" "int option"
  | DeleteById string string
  | UpdateVector string vector string
  | UpdatePayload string pydict string
  | SelectById string string
  | SelectTables
  | DropTable string
  | SelectInfo string
  | SelectList string string "string list" "int option"

datatype result =
    NoResult
  | ExtRows "string list"
  | ScoredRows "(string \<times> real \<times> pydict option) list"
  | RecordRows "(string \<times> vector \<times> pydict option) list"
  | NameRows "string list"
  | InfoRows "(string \<times> nat \<times> string) list"

fun put_table :: "string \<Rightarrow> table \<Rightarrow> (string \<times> table) list \<Rightarrow> (string \<times> table) list" where
  "put_table n t [] = [(n, t)]"
| "put_table n t ((m, u) # ts) = (if m = n then (n, t) # ts else (m, u) # put_table n t ts)"

text \<open>The engine's errors.\<close>

definition undefined_table :: exn where
  "undefined_table = StatementError ''relation does not exist''"

definition invalid_uuid :: exn where
  "invalid_uuid = StatementError ''invalid input syntax for type uuid''"

definition wrong_dimensions :: exn where
  "wrong_dimensions = StatementError ''expected another number of dimensions''"

definition different_dimensions :: exn where
  "different_dimensions = StatementError ''different vector dimensions''"

definition hnsw_limit :: exn where
  "hnsw_limit = StatementError ''column cannot have more than 2000 dimensions for hnsw index''"

definition with_table :: "db \<Rightarrow> string \<Rightarrow> (table \<Rightarrow> exn + 'a) \<Rightarrow> exn + 'a" where
  "with_table d n f = (case map_of (tables d) n of None \<Rightarrow> Inl undefined_table | Some t \<Rightarrow> f t)"

definition set_rows :: "db \<Rightarrow> string \<Rightarrow> table \<Rightarrow> row list \<Rightarrow> db" where
  "set_rows d n t rs = d\<lparr>tables := put_table n (t\<lparr>tbl_rows := rs\<rparr>) (tables d)\<rparr>"

text \<open>
  The type \<^verbatim>\<open>uuid\<close>. The engine reads sixteen bytes of two hexadecimal digits each, in
  either case, with an optional hyphen after every second byte but the last, and an
  optional pair of braces around the whole; anything else is refused. \<open>uuid_in\<close> gives
  the value in the form the engine prints and Python's \<^verbatim>\<open>str\<close> shows: lower case,
  hyphens after the digits 8, 12, 16 and 20. \<open>uuid_bytes n\<close> reads the last \<open>n\<close> bytes.
\<close>

definition isxdigit :: "char \<Rightarrow> bool" where
  "isxdigit c = (c \<in> set ''0123456789abcdefABCDEF'')"

definition hex_lower :: "char \<Rightarrow> char" where
  "hex_lower c = (case map_of (zip ''ABCDEF'' ''abcdef'') c of Some l \<Rightarrow> l | None \<Rightarrow> c)"

fun uuid_bytes :: "nat \<Rightarrow> string \<Rightarrow> (string \<times> string) option" where
  "uuid_bytes 0 src = Some ([], src)"
| "uuid_bytes (Suc n) (a # b # src) =
     (if isxdigit a \<and> isxdigit b then
        (case uuid_bytes n
                (case src of
                   [] \<Rightarrow> src
                 | c # rest \<Rightarrow> if c = CHR ''-'' \<and> even n \<and> 0 < n then rest else src) of
           None \<Rightarrow> None
         | Some (ds, r) \<Rightarrow> Some (hex_lower a # hex_lower b # ds, r))
      else None)"
| "uuid_bytes (Suc n) src = None"

definition uuid_out :: "string \<Rightarrow> string" where
  "uuid_out ds =
     take 8 ds @ ''-'' @ take 4 (drop 8 ds) @ ''-'' @ take 4 (drop 12 ds) @ ''-''
       @ take 4 (drop 16 ds) @ ''-'' @ drop 20 ds"

definition uuid_in :: "string \<Rightarrow> string option" where
  "uuid_in source =
     (case source of
        [] \<Rightarrow> None
      | c # rest \<Rightarrow>
          if c = CHR ''{'' then
            (case uuid_bytes 16 rest of
               None \<Rightarrow> None
             | Some (ds, r) \<Rightarrow> if r = ''}'' then Some (uuid_out ds) else None)
          else
            (case uuid_bytes 16 source of
               None \<Rightarrow> None
             | Some (ds, r) \<Rightarrow> if r = [] then Some (uuid_out ds) else None))"

text \<open>
  One row of an insert: the identifier must be a UUID, the vector must have the
  column's dimensionality, and the primary key refuses an identifier that is stored
  already.
\<close>

fun sql_insert :: "int \<Rightarrow> (string \<times> vector \<times> pydict option) list \<Rightarrow> row list \<Rightarrow> exn + row list" where
  "sql_insert dims [] rs = Inr rs"
| "sql_insert dims ((i, v, p) # xs) rs =
     (case uuid_in i of
        None \<Rightarrow> Inl invalid_uuid
      | Some u \<Rightarrow>
          if int (length v) \<noteq> dims then Inl wrong_dimensions
          else if u \<in> set (map row_id rs) then Inl (StatementError ''duplicate key'')
          else sql_insert dims xs (rs @ [\<lparr>row_id = u, row_vector = v, row_payload = p\<rparr>]))"

text \<open>
  \<^verbatim>\<open>payload->>key\<close>: the field as text, NULL (here \<open>None\<close>) when the payload or the field is
  missing or the field is JSON null.
\<close>

fun json_text :: "pyval \<Rightarrow> string option" where
  "json_text PNone = None"
| "json_text (PBool b) = Some (if b then ''true'' else ''false'')"
| "json_text (PInt i) = Some (dec_int i)"
| "json_text (PStr s) = Some s"

definition payload_field_text :: "pydict option \<Rightarrow> string \<Rightarrow> string option" where
  "payload_field_text p k =
     (case p of None \<Rightarrow> None
      | Some d \<Rightarrow> (case map_of d k of None \<Rightarrow> None | Some v \<Rightarrow> json_text v))"

fun param_pairs :: "string list \<Rightarrow> (string \<times> string) list" where
  "param_pairs (k # v # ps) = (k, v) # param_pairs ps"
| "param_pairs _ = []"

definition row_matches :: "(string \<times> string) list \<Rightarrow> row \<Rightarrow> bool" where
  "row_matches ps r = list_all (\<lambda>(k, s). payload_field_text (row_payload r) k = Some s) ps"

text \<open>
  The filter clauses the engine model reads: none, or \<open>n\<close> equality predicates joined by
  AND, each taking two of the bound parameters. Any other clause is a syntax error.
\<close>

definition where_text :: "nat \<Rightarrow> string" where
  "where_text n =
     (if n = 0 then '''' else ''WHERE '' @ join '' AND '' (replicate n ''payload->>%s = %s''))"

definition eval_where :: "string \<Rightarrow> string list \<Rightarrow> row list \<Rightarrow> exn + row list" where
  "eval_where clause ps rs =
     (if even (length ps) \<and> clause = where_text (length ps div 2)
      then Inr (filter (row_matches (param_pairs ps)) rs)
      else Inl (StatementError ''syntax error''))"

text \<open>\<^verbatim>\<open>LIMIT\<close>: NULL is no limit, a negative number is an error.\<close>

definition apply_limit :: "int option \<Rightarrow> 'a list \<Rightarrow> exn + 'a list" where
  "apply_limit limit xs =
     (case limit of None \<Rightarrow> Inr xs
      | Some n \<Rightarrow> if n < 0 then Inl (StatementError ''LIMIT must not be negative'')
                  else Inr (take (nat n) xs))"

text \<open>
  The rows of a search: the limit is read first; unless it is 0, the distance of every
  row that passes the filter is computed, and the operator refuses a stored vector whose
  length is not the query's.
\<close>

definition ranked :: "(vector \<Rightarrow> vector \<Rightarrow> real) \<Rightarrow> vector \<Rightarrow> int option \<Rightarrow> row list \<Rightarrow> exn + row list" where
  "ranked dop q limit rs =
     (case apply_limit limit (sort_key (\<lambda>r. dop q (row_vector r)) rs) of
        Inl e \<Rightarrow> Inl e
      | Inr out \<Rightarrow>
          if limit \<noteq> Some 0 \<and> list_ex (\<lambda>r. length (row_vector r) \<noteq> length q) rs
          then Inl different_dimensions
          else Inr out)"

definition row_tuple :: "row \<Rightarrow> string \<times> vector \<times> pydict option" where
  "row_tuple r = (row_id r, row_vector r, row_payload r)"

text \<open>
  The statements. A statement on a table that does not exist is refused before its
  parameters are read. \<^verbatim>\<open>CREATE ... IF NOT EXISTS\<close> leaves an existing table or index as
  it is. The extension \<^verbatim>\<open>vector\<close> is taken to be available for installing. A new table
  needs the type \<^verbatim>\<open>vector\<close> and between 1 and 16000 dimensions; an index needs its access
  method, which the extension brings, and the HNSW build refuses a column of more than
  2000 dimensions. No limit is set on a DiskANN index: the adapter asks for one below
  2000 dimensions only.
\<close>

fun run_stmt :: "(vector \<Rightarrow> vector \<Rightarrow> real) \<Rightarrow> (table \<Rightarrow> string) \<Rightarrow> stmt \<Rightarrow> db \<Rightarrow> exn + result \<times> db" where
  "run_stmt dop sz (CreateExtension x) d =
     Inr (NoResult, if x \<in> set (extensions d) then d else d\<lparr>extensions := extensions d @ [x]\<rparr>)"
| "run_stmt dop sz (CreateTable n dims) d =
     (case map_of (tables d) n of
        Some t \<Rightarrow> Inr (NoResult, d)
      | None \<Rightarrow>
          if ''vector'' \<notin> set (extensions d) then Inl (StatementError ''type vector does not exist'')
          else if dims < 1 \<or> 16000 < dims
          then Inl (StatementError ''dimensions for type vector must be between 1 and 16000'')
          else Inr (NoResult,
                 d\<lparr>tables := tables d @ [(n, \<lparr>tbl_dims = dims, tbl_rows = [], tbl_indexes = []\<rparr>)]\<rparr>))"
| "run_stmt dop sz (SelectExtension x) d = Inr (ExtRows (filter (\<lambda>e. e = x) (extensions d)), d)"
| "run_stmt dop sz (CreateIndex iname n m) d =
     with_table d n (\<lambda>t.
       if (case m of Hnsw \<Rightarrow> ''vector'' | Diskann \<Rightarrow> ''vectorscale'') \<notin> set (extensions d)
       then Inl (StatementError ''access method does not exist'')
       else if iname \<in> set (map fst (tbl_indexes t)) then Inr (NoResult, d)
       else if m = Hnsw \<and> 2000 < tbl_dims t then Inl hnsw_limit
       else Inr (NoResult,
              d\<lparr>tables := put_table n (t\<lparr>tbl_indexes := tbl_indexes t @ [(iname, m)]\<rparr>) (tables d)\<rparr>))"
| "run_stmt dop sz (Insert n xs) d =
     with_table d n (\<lambda>t.
       case sql_insert (tbl_dims t) xs (tbl_rows t) of
         Inl e \<Rightarrow> Inl e
       | Inr rs \<Rightarrow> Inr (NoResult, set_rows d n t rs))"
| "run_stmt dop sz (SelectSearch n clause q ps limit) d =
     with_table d n (\<lambda>t.
       case eval_where clause ps (tbl_rows t) of
         Inl e \<Rightarrow> Inl e
       | Inr rs \<Rightarrow>
           (case ranked dop q limit rs of
              Inl e \<Rightarrow> Inl e
            | Inr out \<Rightarrow>
                Inr (ScoredRows (map (\<lambda>r. (row_id r, dop q (row_vector r), row_payload r)) out), d)))"
| "run_stmt dop sz (DeleteById n i) d =
     with_table d n (\<lambda>t.
       case uuid_in i of
         None \<Rightarrow> Inl invalid_uuid
       | Some u \<Rightarrow> Inr (NoResult, set_rows d n t (filter (\<lambda>r. row_id r \<noteq> u) (tbl_rows t))))"
| "run_stmt dop sz (UpdateVector n v i) d =
     with_table d n (\<lambda>t.
       case uuid_in i of
         None \<Rightarrow> Inl invalid_uuid
       | Some u \<Rightarrow>
           if int (length v) \<noteq> tbl_dims t then Inl wrong_dimensions
           else Inr (NoResult,
                  set_rows d n t (map (\<lambda>r. if row_id r = u then r\<lparr>row_vector := v\<rparr> else r) (tbl_rows t))))"
| "run_stmt dop sz (UpdatePayload n p i) d =
     with_table d n (\<lambda>t.
       case uuid_in i of
         None \<Rightarrow> Inl invalid_uuid
       | Some u \<Rightarrow>
           Inr (NoResult,
             set_rows d n t (map (\<lambda>r. if row_id r = u then r\<lparr>row_payload := Some p\<rparr> else r) (tbl_rows t))))"
| "run_stmt dop sz (SelectById n i) d =
     with_table d n (\<lambda>t.
       case uuid_in i of
         None \<Rightarrow> Inl invalid_uuid
       | Some u \<Rightarrow> Inr (RecordRows (map row_tuple (filter (\<lambda>r. row_id r = u) (tbl_rows t))), d))"
| "run_stmt dop sz SelectTables d = Inr (NameRows (map fst (tables d)), d)"
| "run_stmt dop sz (DropTable n) d =
     Inr (NoResult, d\<lparr>tables := filter (\<lambda>nt. fst nt \<noteq> n) (tables d)\<rparr>)"
| "run_stmt dop sz (SelectInfo n) d =
     with_table d n (\<lambda>t. Inr (InfoRows [(n, length (tbl_rows t), sz t)], d))"
| "run_stmt dop sz (SelectList n clause ps limit) d =
     with_table d n (\<lambda>t.
       case eval_where clause ps (tbl_rows t) of
         Inl e \<Rightarrow> Inl e
       | Inr rs \<Rightarrow>
           (case apply_limit limit rs of
              Inl e \<Rightarrow> Inl e
            | Inr out \<Rightarrow> Inr (RecordRows (map row_tuple out), d)))"

subsection \<open>The world: the engine, one pooled connection and a trace\<close>

text \<open>
  \<open>committed\<close> is the data every transaction sees; \<open>session\<close> is the data as the
  borrowed connection sees it, with the effects of its open transaction. The trace
  records, in order, what the adapter and the driver did.
\<close>

datatype event =
    Getconn | OpenCursor | Execute stmt | Commit | Rollback | CloseCursor | Putconn
  | LogInfo string | LogWarning string

record world =
  distance_op :: "vector \<Rightarrow> vector \<Rightarrow> real"
  size_pretty :: "table \<Rightarrow> string"
  committed :: db
  session :: db
  trace :: "event list"

type_synonym 'a prog = "world \<Rightarrow> (exn + 'a) \<times> world"

definition ret :: "'a \<Rightarrow> 'a prog" where
  "ret x w = (Inr x, w)"

definition and_then :: "'a prog \<Rightarrow> ('a \<Rightarrow> 'b prog) \<Rightarrow> 'b prog" where
  "and_then m f w = (case m w of (Inl e, w1) \<Rightarrow> (Inl e, w1) | (Inr x, w1) \<Rightarrow> f x w1)"

definition emit :: "event \<Rightarrow> world \<Rightarrow> world" where
  "emit e w = w\<lparr>trace := trace w @ [e]\<rparr>"

text \<open>
  The driver's primitives. Commit makes the session's data the committed data, rollback
  discards the open transaction. A pool hands a connection back without an open
  transaction, so \<open>pool_putconn\<close> discards what was neither committed nor rolled back.
  The primitives themselves are taken not to raise.
\<close>

definition pool_getconn :: "world \<Rightarrow> world" where
  "pool_getconn w = emit Getconn w"

definition conn_cursor :: "world \<Rightarrow> world" where
  "conn_cursor w = emit OpenCursor w"

definition conn_commit :: "world \<Rightarrow> world" where
  "conn_commit w = emit Commit (w\<lparr>committed := session w\<rparr>)"

definition conn_rollback :: "world \<Rightarrow> world" where
  "conn_rollback w = emit Rollback (w\<lparr>session := committed w\<rparr>)"

definition cur_close :: "world \<Rightarrow> world" where
  "cur_close w = emit CloseCursor w"

definition pool_putconn :: "world \<Rightarrow> world" where
  "pool_putconn w = emit Putconn (w\<lparr>session := committed w\<rparr>)"

definition cur_execute :: "stmt \<Rightarrow> result prog" where
  "cur_execute s w =
     (let w1 = emit (Execute s) w in
      case run_stmt (distance_op w1) (size_pretty w1) s (session w1) of
        Inl e \<Rightarrow> (Inl e, w1)
      | Inr (res, d) \<Rightarrow> (Inr res, w1\<lparr>session := d\<rparr>))"

text \<open>The rows of the last result, as \<^verbatim>\<open>fetchall\<close> and \<^verbatim>\<open>fetchone\<close> read them.\<close>

fun result_size :: "result \<Rightarrow> nat" where
  "result_size NoResult = 0"
| "result_size (ExtRows rs) = length rs"
| "result_size (ScoredRows rs) = length rs"
| "result_size (RecordRows rs) = length rs"
| "result_size (NameRows rs) = length rs"
| "result_size (InfoRows rs) = length rs"

fun scored_rows :: "result \<Rightarrow> (string \<times> real \<times> pydict option) list" where
  "scored_rows (ScoredRows rs) = rs"
| "scored_rows _ = []"

fun record_rows :: "result \<Rightarrow> (string \<times> vector \<times> pydict option) list" where
  "record_rows (RecordRows rs) = rs"
| "record_rows _ = []"

fun name_rows :: "result \<Rightarrow> string list" where
  "name_rows (NameRows rs) = rs"
| "name_rows _ = []"

fun info_rows :: "result \<Rightarrow> (string \<times> nat \<times> string) list" where
  "info_rows (InfoRows rs) = rs"
| "info_rows _ = []"

subsection \<open>The resource facade\<close>

text \<open>
  With psycopg3 the facade is the pool's own context manager around the cursor's:
  \<^verbatim>\<open>
  with self.pool.connection() as conn:
      with conn.cursor() as cur:
          yield cur
  \<close>
  The source's comment says what the pool's context does (``psycopg3 auto-manages
  commit/rollback and pool return''): on leaving the block it commits when the block
  ended normally and rolls back when it raised, then returns the connection.
\<close>

definition pool_connection :: "'a prog \<Rightarrow> 'a prog" where
  "pool_connection body w =
     (case body (pool_getconn w) of
        (Inr x, w1) \<Rightarrow> (Inr x, pool_putconn (conn_commit w1))
      | (Inl e, w1) \<Rightarrow> (Inl e, pool_putconn (conn_rollback w1)))"

definition cursor_scope :: "'a prog \<Rightarrow> 'a prog" where
  "cursor_scope body w = (case body (conn_cursor w) of (r, w1) \<Rightarrow> (r, cur_close w1))"

text \<open>
  \<^verbatim>\<open>
  conn = self.pool.getconn()
  cur = conn.cursor()
  try:
      yield cur
      if commit:
          conn.commit()
  except Exception:
      conn.rollback()
      raise
  finally:
      cur.close()
      self.pool.putconn(conn)
  \<close>
  \<open>ver\<close> is the module's \<^verbatim>\<open>PSYCOPG_VERSION\<close>; the block of the \<^verbatim>\<open>with\<close> statement is \<open>body\<close>.
\<close>

definition get_cursor :: "nat \<Rightarrow> bool \<Rightarrow> 'a prog \<Rightarrow> 'a prog" where
  "get_cursor ver commit body w =
     (if ver = 3 then pool_connection (cursor_scope body) w
      else
        (case body (conn_cursor (pool_getconn w)) of
           (Inr x, w1) \<Rightarrow>
             (Inr x, pool_putconn (cur_close (if commit then conn_commit w1 else w1)))
         | (Inl e, w1) \<Rightarrow>
             (Inl e, pool_putconn (cur_close (if is_Exception e then conn_rollback w1 else w1)))))"

subsection \<open>The adapter\<close>

record pgvector =
  collection_name :: string
  use_diskann :: bool
  use_hnsw :: bool
  embedding_model_dims :: int

record OutputData =
  od_id :: "string option"
  od_score :: "real option"
  od_payload :: "pydict option"

definition create_col :: "nat \<Rightarrow> pgvector \<Rightarrow> unit prog" where
  "create_col ver self =
     get_cursor ver True
       (and_then (cur_execute (CreateExtension ''vector'')) (\<lambda>_.
        and_then (cur_execute (CreateTable (collection_name self) (embedding_model_dims self))) (\<lambda>_.
        if use_diskann self \<and> embedding_model_dims self < 2000 then
          and_then (cur_execute (SelectExtension ''vectorscale'')) (\<lambda>r.
            if result_size r \<noteq> 0 then
              and_then
                (cur_execute
                  (CreateIndex (collection_name self @ ''_diskann_idx'') (collection_name self) Diskann))
                (\<lambda>_. ret ())
            else ret ())
        else if use_hnsw self then
          and_then
            (cur_execute (CreateIndex (collection_name self @ ''_hnsw_idx'') (collection_name self) Hnsw))
            (\<lambda>_. ret ())
        else ret ())))"

text \<open>
  \<^verbatim>\<open>executemany\<close> runs the statement once per row; \<^verbatim>\<open>execute_values\<close> sends the rows in
  pages of 100, and nothing for no rows. Both stop at the first error.
\<close>

fun executemany :: "string \<Rightarrow> (string \<times> vector \<times> pydict option) list \<Rightarrow> unit prog" where
  "executemany n [] w = (Inr (), w)"
| "executemany n (x # xs) w =
     (case cur_execute (Insert n [x]) w of
        (Inl e, w1) \<Rightarrow> (Inl e, w1)
      | (Inr _, w1) \<Rightarrow> executemany n xs w1)"

fun paginate :: "nat \<Rightarrow> 'a list \<Rightarrow> 'a list list" where
  "paginate n xs = (if xs = [] \<or> n = 0 then [] else take n xs # paginate n (drop n xs))"

declare paginate.simps [simp del]

fun execute_pages :: "string \<Rightarrow> (string \<times> vector \<times> pydict option) list list \<Rightarrow> unit prog" where
  "execute_pages n [] w = (Inr (), w)"
| "execute_pages n (page # pages) w =
     (case cur_execute (Insert n page) w of
        (Inl e, w1) \<Rightarrow> (Inl e, w1)
      | (Inr _, w1) \<Rightarrow> execute_pages n pages w1)"

definition execute_values :: "string \<Rightarrow> (string \<times> vector \<times> pydict option) list \<Rightarrow> unit prog" where
  "execute_values n data = execute_pages n (paginate 100 data)"

text \<open>
  \<^verbatim>\<open>insert\<close>. The defaults \<^verbatim>\<open>payloads=None\<close> and \<^verbatim>\<open>ids=None\<close> raise \<^verbatim>\<open>TypeError\<close> where the
  source iterates them; \<^verbatim>\<open>zip\<close> stops at the shortest list. A payload and its JSON text
  are the same value here.
\<close>

definition insert_op ::
  "nat \<Rightarrow> pgvector \<Rightarrow> vector list \<Rightarrow> pydict option list option \<Rightarrow> string list option \<Rightarrow> unit prog" where
  "insert_op ver self vectors payloads ids w =
     (let w1 = emit (LogInfo (''Inserting '' @ dec_nat (length vectors) @ '' vectors into collection ''
                       @ collection_name self)) w
      in case payloads of
           None \<Rightarrow> (Inl (TypeError ''NoneType object is not iterable''), w1)
         | Some json_payloads \<Rightarrow>
             (case ids of
                None \<Rightarrow> (Inl (TypeError ''NoneType object is not iterable''), w1)
              | Some id_list \<Rightarrow>
                  (let data = zip id_list (zip vectors json_payloads) in
                   if ver = 3 then get_cursor ver True (executemany (collection_name self) data) w1
                   else get_cursor ver True (execute_values (collection_name self) data) w1)))"

definition search_stmt :: "pgvector \<Rightarrow> vector \<Rightarrow> int option \<Rightarrow> pydict option \<Rightarrow> stmt" where
  "search_stmt self vectors limit filters =
     (case filter_lists filters of
        (filter_conditions, filter_params) \<Rightarrow>
          SelectSearch (collection_name self) (filter_clause filter_conditions) vectors filter_params limit)"

definition search ::
  "nat \<Rightarrow> pgvector \<Rightarrow> string \<Rightarrow> vector \<Rightarrow> int option \<Rightarrow> pydict option \<Rightarrow> OutputData list prog" where
  "search ver self query vectors limit filters =
     and_then
       (get_cursor ver False
         (and_then (cur_execute (search_stmt self vectors limit filters)) (\<lambda>r. ret (scored_rows r))))
       (\<lambda>results.
          ret (map (\<lambda>(i, s, p). \<lparr>od_id = Some i, od_score = Some s, od_payload = p\<rparr>) results))"

definition delete :: "nat \<Rightarrow> pgvector \<Rightarrow> string \<Rightarrow> unit prog" where
  "delete ver self vector_id =
     get_cursor ver True
       (and_then (cur_execute (DeleteById (collection_name self) vector_id)) (\<lambda>_. ret ()))"

text \<open>
  \<^verbatim>\<open>update\<close>: \<^verbatim>\<open>if vector:\<close> and \<^verbatim>\<open>if payload:\<close> are false for \<^verbatim>\<open>None\<close> and for the empty
  container. The two branches on the driver differ in the JSON wrapper only.
\<close>

definition update ::
  "nat \<Rightarrow> pgvector \<Rightarrow> string \<Rightarrow> vector option \<Rightarrow> pydict option \<Rightarrow> unit prog" where
  "update ver self vector_id vector payload =
     get_cursor ver True
       (and_then
         (case vector of
            None \<Rightarrow> ret ()
          | Some v \<Rightarrow>
              if v \<noteq> [] then
                and_then (cur_execute (UpdateVector (collection_name self) v vector_id)) (\<lambda>_. ret ())
              else ret ())
         (\<lambda>_.
            case payload of
              None \<Rightarrow> ret ()
            | Some p \<Rightarrow>
                if p \<noteq> [] then
                  (if ver = 3 then
                     and_then (cur_execute (UpdatePayload (collection_name self) p vector_id)) (\<lambda>_. ret ())
                   else
                     and_then (cur_execute (UpdatePayload (collection_name self) p vector_id)) (\<lambda>_. ret ()))
                else ret ()))"

definition get :: "nat \<Rightarrow> pgvector \<Rightarrow> string \<Rightarrow> OutputData option prog" where
  "get ver self vector_id =
     get_cursor ver False
       (and_then (cur_execute (SelectById (collection_name self) vector_id)) (\<lambda>r.
          case record_rows r of
            [] \<Rightarrow> ret None
          | (i, v, p) # _ \<Rightarrow> ret (Some \<lparr>od_id = Some i, od_score = None, od_payload = p\<rparr>)))"

definition list_cols :: "nat \<Rightarrow> pgvector \<Rightarrow> string list prog" where
  "list_cols ver self =
     get_cursor ver False (and_then (cur_execute SelectTables) (\<lambda>r. ret (name_rows r)))"

definition delete_col :: "nat \<Rightarrow> pgvector \<Rightarrow> unit prog" where
  "delete_col ver self =
     get_cursor ver True (and_then (cur_execute (DropTable (collection_name self))) (\<lambda>_. ret ()))"

text \<open>\<^verbatim>\<open>col_info\<close> indexes the fetched row; with no row, \<^verbatim>\<open>None[0]\<close> raises \<^verbatim>\<open>TypeError\<close>.\<close>

definition col_info :: "nat \<Rightarrow> pgvector \<Rightarrow> (string \<times> nat \<times> string) prog" where
  "col_info ver self =
     and_then
       (get_cursor ver False
         (and_then (cur_execute (SelectInfo (collection_name self))) (\<lambda>r. ret (info_rows r))))
       (\<lambda>rows. case rows of
          [] \<Rightarrow> (\<lambda>w. (Inl (TypeError ''NoneType object is not subscriptable''), w))
        | result # _ \<Rightarrow> ret result)"

definition list_stmt :: "pgvector \<Rightarrow> pydict option \<Rightarrow> int option \<Rightarrow> stmt" where
  "list_stmt self filters limit =
     (case filter_lists filters of
        (filter_conditions, filter_params) \<Rightarrow>
          SelectList (collection_name self) (filter_clause filter_conditions) filter_params limit)"

text \<open>
  \<^verbatim>\<open>list\<close> returns
  \<^verbatim>\<open>[[OutputData(id=str(r[0]), score=None, payload=r[2]) for r in results]]\<close>:
  a list whose one element is the list of records.
\<close>

definition list_op :: "nat \<Rightarrow> pgvector \<Rightarrow> pydict option \<Rightarrow> int option \<Rightarrow> OutputData list list prog" where
  "list_op ver self filters limit =
     and_then
       (get_cursor ver False
         (and_then (cur_execute (list_stmt self filters limit)) (\<lambda>r. ret (record_rows r))))
       (\<lambda>results.
          ret [map (\<lambda>(i, v, p). \<lparr>od_id = Some i, od_score = None, od_payload = p\<rparr>) results])"

text \<open>
  \<^verbatim>\<open>
  def reset(self) -> None:
      """Reset the index by deleting and recreating it."""
      logger.warning(f"Resetting index {self.collection_name}...")
      self.delete_col()
      with self._get_cursor(commit=True) as cur:
          self.create_col(cur)
  \<close>
  \<^verbatim>\<open>create_col\<close> is declared as \<^verbatim>\<open>def create_col(self) -> None\<close>. Python checks the
  arguments of a call before the body runs: a call with a positional argument raises
  \<^verbatim>\<open>TypeError\<close>. \<open>call_create_col\<close> is the call with \<open>nargs\<close> positional arguments.
\<close>

definition call_create_col :: "nat \<Rightarrow> pgvector \<Rightarrow> nat \<Rightarrow> unit prog" where
  "call_create_col ver self nargs w =
     (if nargs = 0 then create_col ver self w
      else (Inl (TypeError ''create_col() takes 1 positional argument but 2 were given''), w))"

definition reset :: "nat \<Rightarrow> pgvector \<Rightarrow> unit prog" where
  "reset ver self w =
     (let w1 = emit (LogWarning (''Resetting index '' @ collection_name self @ ''...'')) w
      in and_then (delete_col ver self) (\<lambda>_. get_cursor ver True (call_create_col ver self 1)) w1)"


subsection \<open>Example configurations and worlds\<close>

text \<open>
  A collection of dimensionality 4, an engine with nothing installed, and a distance
  that is the cosine distance on vectors of length one.
\<close>

definition demo_self :: pgvector where
  "demo_self = \<lparr>collection_name = ''mem'', use_diskann = False, use_hnsw = True, embedding_model_dims = 4\<rparr>"

definition demo_diskann :: pgvector where
  "demo_diskann = \<lparr>collection_name = ''mem'', use_diskann = True, use_hnsw = True, embedding_model_dims = 4\<rparr>"

definition empty_db :: db where
  "empty_db = \<lparr>extensions = [], tables = []\<rparr>"

definition demo_distance :: "vector \<Rightarrow> vector \<Rightarrow> real" where
  "demo_distance q v = 1 - sum_list (map2 (*) q v)"

definition fresh_world :: world where
  "fresh_world =
     \<lparr>distance_op = demo_distance, size_pretty = (\<lambda>t. ''8192 bytes''),
      committed = empty_db, session = empty_db, trace = []\<rparr>"

text \<open>The entries of a filter argument: none for \<^verbatim>\<open>None\<close>.\<close>

definition filter_entries :: "pydict option \<Rightarrow> pydict" where
  "filter_entries filters = (case filters of None \<Rightarrow> [] | Some d \<Rightarrow> d)"

text \<open>Four identifiers that are UUIDs, and three stored records, as insert leaves them.\<close>

definition uuid_a :: string where
  "uuid_a = ''00000000-0000-0000-0000-00000000000a''"

definition uuid_b :: string where
  "uuid_b = ''00000000-0000-0000-0000-00000000000b''"

definition uuid_c :: string where
  "uuid_c = ''00000000-0000-0000-0000-00000000000c''"

definition uuid_absent :: string where
  "uuid_absent = ''00000000-0000-0000-0000-0000000000ff''"

definition row_a :: row where
  "row_a = \<lparr>row_id = uuid_a, row_vector = [1, 0, 0, 0], row_payload = Some [(''type'', PStr ''x'')]\<rparr>"

definition row_b :: row where
  "row_b = \<lparr>row_id = uuid_b, row_vector = [0, 1, 0, 0], row_payload = Some [(''type'', PStr ''y'')]\<rparr>"

definition row_c :: row where
  "row_c = \<lparr>row_id = uuid_c, row_vector = [0, 0, 1, 0], row_payload = Some [(''year'', PInt 2020)]\<rparr>"

definition demo_db :: db where
  "demo_db =
     \<lparr>extensions = [''vector''],
      tables = [(''mem'', \<lparr>tbl_dims = 4, tbl_rows = [row_a, row_b, row_c],
                           tbl_indexes = [(''mem_hnsw_idx'', Hnsw)]\<rparr>)]\<rparr>"

definition demo_world :: world where
  "demo_world =
     \<lparr>distance_op = demo_distance, size_pretty = (\<lambda>t. ''8192 bytes''),
      committed = demo_db, session = demo_db, trace = []\<rparr>"

text \<open>What an operation added to the trace.\<close>

definition issued :: "world \<Rightarrow> world \<Rightarrow> event list" where
  "issued w w' = drop (length (trace w)) (trace w')"

text \<open>The table, the rows and the indexes of a collection in a database.\<close>

definition table_exists :: "db \<Rightarrow> string \<Rightarrow> bool" where
  "table_exists d n = (map_of (tables d) n \<noteq> None)"

definition rows_of :: "db \<Rightarrow> string \<Rightarrow> row list" where
  "rows_of d n = (case map_of (tables d) n of None \<Rightarrow> [] | Some t \<Rightarrow> tbl_rows t)"

definition dims_of :: "db \<Rightarrow> string \<Rightarrow> int" where
  "dims_of d n = (case map_of (tables d) n of None \<Rightarrow> 0 | Some t \<Rightarrow> tbl_dims t)"

definition indexes_of :: "db \<Rightarrow> string \<Rightarrow> (string \<times> index_method) list" where
  "indexes_of d n = (case map_of (tables d) n of None \<Rightarrow> [] | Some t \<Rightarrow> tbl_indexes t)"

text \<open>Between two calls the connection has no open transaction.\<close>

definition idle :: "world \<Rightarrow> bool" where
  "idle w = (session w = committed w)"

text \<open>The index statements among the events, and the statements \<open>create_col\<close> sends after the table's.\<close>

fun index_stmts :: "event list \<Rightarrow> stmt list" where
  "index_stmts [] = []"
| "index_stmts (Execute (CreateIndex i n m) # es) = CreateIndex i n m # index_stmts es"
| "index_stmts (e # es) = index_stmts es"

definition index_part :: "pgvector \<Rightarrow> bool \<Rightarrow> event list" where
  "index_part self installed =
     (if use_diskann self \<and> embedding_model_dims self < 2000 then
        Execute (SelectExtension ''vectorscale'') #
          (if installed
           then [Execute (CreateIndex (collection_name self @ ''_diskann_idx'') (collection_name self) Diskann)]
           else [])
      else if use_hnsw self then
        [Execute (CreateIndex (collection_name self @ ''_hnsw_idx'') (collection_name self) Hnsw)]
      else [])"

text \<open>
  Configurations of 2000 and of 3072 dimensions, and an engine with the DiskANN
  extension installed.
\<close>

definition demo_wide :: pgvector where
  "demo_wide = \<lparr>collection_name = ''mem'', use_diskann = True, use_hnsw = True, embedding_model_dims = 2000\<rparr>"

definition demo_large :: pgvector where
  "demo_large = \<lparr>collection_name = ''mem'', use_diskann = True, use_hnsw = True, embedding_model_dims = 3072\<rparr>"

definition scale_world :: world where
  "scale_world =
     \<lparr>distance_op = demo_distance, size_pretty = (\<lambda>t. ''8192 bytes''),
      committed = \<lparr>extensions = [''vectorscale''], tables = []\<rparr>,
      session = \<lparr>extensions = [''vectorscale''], tables = []\<rparr>, trace = []\<rparr>"

text \<open>
  Helpers to state what \<open>update\<close> does: a function applied to every row of one table, the
  statements \<open>update\<close> sends, and its effect on one row, for the identifier as the engine
  reads it.
\<close>

definition update_rows :: "db \<Rightarrow> string \<Rightarrow> (row \<Rightarrow> row) \<Rightarrow> db" where
  "update_rows d n f =
     (case map_of (tables d) n of None \<Rightarrow> d | Some t \<Rightarrow> set_rows d n t (map f (tbl_rows t)))"

definition update_stmts :: "string \<Rightarrow> string \<Rightarrow> vector option \<Rightarrow> pydict option \<Rightarrow> event list" where
  "update_stmts n i vector payload =
     (case vector of None \<Rightarrow> [] | Some v \<Rightarrow> if v \<noteq> [] then [Execute (UpdateVector n v i)] else [])
     @ (case payload of None \<Rightarrow> [] | Some p \<Rightarrow> if p \<noteq> [] then [Execute (UpdatePayload n p i)] else [])"

definition update_row :: "string \<Rightarrow> vector option \<Rightarrow> pydict option \<Rightarrow> row \<Rightarrow> row" where
  "update_row u vector payload r =
     (if row_id r = u then
        r\<lparr>row_vector := (case vector of None \<Rightarrow> row_vector r | Some v \<Rightarrow> if v \<noteq> [] then v else row_vector r),
          row_payload := (case payload of None \<Rightarrow> row_payload r | Some p \<Rightarrow> if p \<noteq> [] then Some p else row_payload r)\<rparr>
      else r)"

text \<open>
  Helpers to state what \<open>search\<close> returns: the rows a filter map selects, the rows in the
  order of their distance to the query, and the record made of a row and its distance.
\<close>

definition qualifying :: "pydict option \<Rightarrow> row list \<Rightarrow> row list" where
  "qualifying filters rs =
     filter (row_matches (map (\<lambda>(k, v). (k, py_str v)) (filter_entries filters))) rs"

definition nearest_first :: "(vector \<Rightarrow> vector \<Rightarrow> real) \<Rightarrow> vector \<Rightarrow> row list \<Rightarrow> row list" where
  "nearest_first dop q rs = sort_key (\<lambda>r. dop q (row_vector r)) rs"

definition scored :: "(vector \<Rightarrow> vector \<Rightarrow> real) \<Rightarrow> vector \<Rightarrow> row \<Rightarrow> OutputData" where
  "scored dop q r = \<lparr>od_id = Some (row_id r), od_score = Some (dop q (row_vector r)), od_payload = row_payload r\<rparr>"

text \<open>The block that \<open>create_col\<close> runs with its cursor, and the index it asks for.\<close>

definition create_col_block :: "pgvector \<Rightarrow> unit prog" where
  "create_col_block self =
       (and_then (cur_execute (CreateExtension ''vector'')) (\<lambda>_.
        and_then (cur_execute (CreateTable (collection_name self) (embedding_model_dims self))) (\<lambda>_.
        if use_diskann self \<and> embedding_model_dims self < 2000 then
          and_then (cur_execute (SelectExtension ''vectorscale'')) (\<lambda>r.
            if result_size r \<noteq> 0 then
              and_then
                (cur_execute
                  (CreateIndex (collection_name self @ ''_diskann_idx'') (collection_name self) Diskann))
                (\<lambda>_. ret ())
            else ret ())
        else if use_hnsw self then
          and_then
            (cur_execute (CreateIndex (collection_name self @ ''_hnsw_idx'') (collection_name self) Hnsw))
            (\<lambda>_. ret ())
        else ret ())))"

definition index_choice :: "pgvector \<Rightarrow> bool \<Rightarrow> (string \<times> index_method) list" where
  "index_choice self installed =
     (if use_diskann self \<and> embedding_model_dims self < 2000 then
        (if installed then [(collection_name self @ ''_diskann_idx'', Diskann)] else [])
      else if use_hnsw self then [(collection_name self @ ''_hnsw_idx'', Hnsw)]
      else [])"

text \<open>The block that \<open>update\<close> runs with its cursor.\<close>

definition update_block :: "nat \<Rightarrow> pgvector \<Rightarrow> string \<Rightarrow> vector option \<Rightarrow> pydict option \<Rightarrow> unit prog" where
  "update_block ver self vector_id vector payload =
       (and_then
         (case vector of
            None \<Rightarrow> ret ()
          | Some v \<Rightarrow>
              if v \<noteq> [] then
                and_then (cur_execute (UpdateVector (collection_name self) v vector_id)) (\<lambda>_. ret ())
              else ret ())
         (\<lambda>_.
            case payload of
              None \<Rightarrow> ret ()
            | Some p \<Rightarrow>
                if p \<noteq> [] then
                  (if ver = 3 then
                     and_then (cur_execute (UpdatePayload (collection_name self) p vector_id)) (\<lambda>_. ret ())
                   else
                     and_then (cur_execute (UpdatePayload (collection_name self) p vector_id)) (\<lambda>_. ret ()))
                else ret ()))"

text \<open>
  The error the engine answers an \<open>update\<close> with, if any, and what the call does to a
  row: nothing when it raises.
\<close>

definition update_error :: "db \<Rightarrow> string \<Rightarrow> string \<Rightarrow> vector option \<Rightarrow> pydict option \<Rightarrow> exn option" where
  "update_error d n i vector payload =
     (if update_stmts n i vector payload = [] then None
      else case uuid_in i of
             None \<Rightarrow> Some invalid_uuid
           | Some u \<Rightarrow>
               (case vector of
                  None \<Rightarrow> None
                | Some v \<Rightarrow> if v \<noteq> [] \<and> int (length v) \<noteq> dims_of d n then Some wrong_dimensions else None))"

definition update_outcome :: "db \<Rightarrow> string \<Rightarrow> string \<Rightarrow> vector option \<Rightarrow> pydict option \<Rightarrow> row \<Rightarrow> row" where
  "update_outcome d n i vector payload r =
     (case update_error d n i vector payload of
        Some e \<Rightarrow> r
      | None \<Rightarrow> (case uuid_in i of None \<Rightarrow> r | Some u \<Rightarrow> update_row u vector payload r))"

section \<open>Properties\<close>

lemmas driver_defs = pool_getconn_def conn_cursor_def conn_commit_def conn_rollback_def
  cur_close_def pool_putconn_def emit_def

lemmas op_defs = get_cursor_def pool_connection_def cursor_scope_def and_then_def ret_def
  cur_execute_def with_table_def set_rows_def eval_where_def apply_limit_def ranked_def where_text_def
  row_tuple_def row_matches_def payload_field_text_def

lemmas demo_defs = demo_self_def demo_diskann_def empty_db_def fresh_world_def demo_db_def
  demo_world_def row_a_def row_b_def row_c_def demo_distance_def

subsection \<open>The example identifiers\<close>

lemma uuid_in_demo:
  "uuid_in uuid_a = Some uuid_a" "uuid_in uuid_b = Some uuid_b" "uuid_in uuid_c = Some uuid_c"
  "uuid_in uuid_absent = Some uuid_absent"
  by code_simp+

lemma uuid_in_not_uuid:
  "uuid_in ''missing-id'' = None" "uuid_in ''a'' = None" "uuid_in ''b'' = None" "uuid_in ''c'' = None"
  by code_simp+

lemma uuid_in_other_forms:
  "uuid_in ''{A0EEBC99-9C0B-4EF8-BB6D-6BB9BD380A11}'' = Some ''a0eebc99-9c0b-4ef8-bb6d-6bb9bd380a11''"
  "uuid_in ''a0eebc999c0b4ef8bb6d6bb9bd380a11'' = Some ''a0eebc99-9c0b-4ef8-bb6d-6bb9bd380a11''"
  "uuid_in ''a0eebc99-9c0b-4ef8-bb6d-6bb9bd380a11-'' = None"
  by code_simp+

lemma uuid_distinct:
  "uuid_a \<noteq> uuid_b" "uuid_b \<noteq> uuid_a" "uuid_a \<noteq> uuid_c" "uuid_c \<noteq> uuid_a"
  "uuid_b \<noteq> uuid_c" "uuid_c \<noteq> uuid_b"
  "uuid_absent \<noteq> uuid_a" "uuid_a \<noteq> uuid_absent" "uuid_absent \<noteq> uuid_b" "uuid_b \<noteq> uuid_absent"
  "uuid_absent \<noteq> uuid_c" "uuid_c \<noteq> uuid_absent"
  by (simp_all add: uuid_a_def uuid_b_def uuid_c_def uuid_absent_def)

lemma not_uuid_distinct:
  "''missing-id'' \<noteq> uuid_a" "''missing-id'' \<noteq> uuid_b" "''missing-id'' \<noteq> uuid_c"
  by (simp_all add: uuid_a_def uuid_b_def uuid_c_def)

lemmas uuid_demo = uuid_in_demo uuid_in_not_uuid uuid_distinct not_uuid_distinct

subsection \<open>The filter clause\<close>

lemma filter_items_acc:
  "filter_items d (cs, ps) =
     (cs @ replicate (length d) ''payload->>%s = %s'', ps @ concat (map (\<lambda>(k, v). [k, py_str v]) d))"
  by (induction d arbitrary: cs ps) (auto simp: replicate_append_same)

lemma filter_lists_entries:
  "filter_lists filters =
     (replicate (length (filter_entries filters)) ''payload->>%s = %s'',
      concat (map (\<lambda>(k, v). [k, py_str v]) (filter_entries filters)))"
  by (cases filters) (simp_all add: filter_lists_def filter_entries_def filter_items_acc)

lemma filter_clause_replicate:
  "filter_clause (replicate n ''payload->>%s = %s'') =
     (if n = 0 then '''' else ''WHERE '' @ join '' AND '' (replicate n ''payload->>%s = %s''))"
  by (simp add: filter_clause_def)

text \<open>
  C8. The statement that \<open>search\<close> and \<open>list\<close> send for a filter map: its clause is empty
  for an absent or empty map and otherwise \<^verbatim>\<open>WHERE\<close> followed by one predicate
  \<^verbatim>\<open>payload->>%s = %s\<close> per entry, joined by \<^verbatim>\<open>AND\<close>; the bound parameters are, entry by
  entry and in order, the key and \<^verbatim>\<open>str\<close> of the value. The clause is a function of the
  number of entries alone, so no key and no value is part of the statement text.
\<close>

theorem filter_clause_parameterised:
  "search_stmt self vectors limit filters =
     SelectSearch (collection_name self)
       (if filter_entries filters = [] then ''''
        else ''WHERE '' @ join '' AND '' (replicate (length (filter_entries filters)) ''payload->>%s = %s''))
       vectors (concat (map (\<lambda>(k, v). [k, py_str v]) (filter_entries filters))) limit
   \<and> list_stmt self filters limit =
     SelectList (collection_name self)
       (if filter_entries filters = [] then ''''
        else ''WHERE '' @ join '' AND '' (replicate (length (filter_entries filters)) ''payload->>%s = %s''))
       (concat (map (\<lambda>(k, v). [k, py_str v]) (filter_entries filters))) limit"
  by (simp add: search_stmt_def list_stmt_def filter_lists_entries filter_clause_replicate)

theorem filter_clause_parameterised_witness:
  "search_stmt demo_self [1, 0, 0, 0] (Some 5) (Some [(''type'', PStr ''x''), (''year'', PInt 2020)]) =
     SelectSearch ''mem'' ''WHERE payload->>%s = %s AND payload->>%s = %s'' [1, 0, 0, 0]
       [''type'', ''x'', ''year'', ''2020''] (Some 5)
   \<and> list_stmt demo_self None (Some 100) = SelectList ''mem'' '''' [] (Some 100)
   \<and> list_stmt demo_self (Some []) (Some 100) = SelectList ''mem'' '''' [] (Some 100)"
  using filter_clause_parameterised [of demo_self "[1, 0, 0, 0]" "Some 5" "Some [(''type'', PStr ''x''), (''year'', PInt 2020)]"]
    filter_clause_parameterised [of demo_self "[]" "Some 100" None]
    filter_clause_parameterised [of demo_self "[]" "Some 100" "Some []"]
  by (simp add: filter_entries_def demo_self_def dec_int_def dec_nat.simps numeral_2_eq_2)

subsection \<open>Tables\<close>

lemma map_of_put_table: "map_of (put_table n t ts) m = (if m = n then Some t else map_of ts m)"
  by (induction ts) auto

lemma put_table_same: "map_of ts n = Some t \<Longrightarrow> put_table n t ts = ts"
  by (induction ts) (auto split: if_splits)

lemma put_table_twice: "put_table n t (put_table n u ts) = put_table n t ts"
  by (induction ts) auto

subsection \<open>The resource facade\<close>

lemma get_cursor_ok:
  assumes "body (conn_cursor (pool_getconn w)) = (Inr x, w1)"
  shows "get_cursor ver commit body w =
     (Inr x, if ver = 3 then pool_putconn (conn_commit (cur_close w1))
             else pool_putconn (cur_close (if commit then conn_commit w1 else w1)))"
  using assms by (simp add: get_cursor_def pool_connection_def cursor_scope_def)

lemma get_cursor_raise:
  assumes "body (conn_cursor (pool_getconn w)) = (Inl e, w1)"
  shows "get_cursor ver commit body w =
     (Inl e, if ver = 3 then pool_putconn (conn_rollback (cur_close w1))
             else pool_putconn (cur_close (if is_Exception e then conn_rollback w1 else w1)))"
  using assms by (simp add: get_cursor_def pool_connection_def cursor_scope_def)

lemma cur_execute_world:
  "cur_execute s w = (r, w') \<Longrightarrow>
     trace w' = trace w @ [Execute s] \<and> committed w' = committed w \<and>
     distance_op w' = distance_op w \<and> size_pretty w' = size_pretty w"
  by (auto simp: cur_execute_def Let_def emit_def split: sum.splits prod.splits)

lemma read_body_trace:
  assumes "\<And>r w. \<exists>y. k r w = (Inr y, w)"
  shows "\<exists>r w1. and_then (cur_execute s) k w0 = (r, w1) \<and> trace w1 = trace w0 @ [Execute s]"
proof (cases "cur_execute s w0")
  case (Pair r w1)
  note tr = cur_execute_world [OF Pair]
  show ?thesis
  proof (cases r)
    case (Inl e)
    with Pair tr show ?thesis by (simp add: and_then_def)
  next
    case (Inr x)
    from assms obtain y where "k x w1 = (Inr y, w1)" by blast
    with Pair Inr tr show ?thesis by (simp add: and_then_def)
  qed
qed

lemma read_no_commit:
  assumes pure: "\<And>r w. \<exists>y. k r w = (Inr y, w)" and v: "ver \<noteq> 3"
  shows "Commit \<notin> set (issued w (snd (get_cursor ver False (and_then (cur_execute s) k) w)))"
proof -
  have "\<exists>r w1. and_then (cur_execute s) k (conn_cursor (pool_getconn w)) = (r, w1) \<and>
      trace w1 = trace (conn_cursor (pool_getconn w)) @ [Execute s]"
    by (rule read_body_trace) (rule pure)
  then obtain r w1 where b: "and_then (cur_execute s) k (conn_cursor (pool_getconn w)) = (r, w1)"
    and t: "trace w1 = trace (conn_cursor (pool_getconn w)) @ [Execute s]" by blast
  show ?thesis
  proof (cases r)
    case (Inl e)
    with b t v show ?thesis
      by (simp add: get_cursor_raise [where body = "and_then (cur_execute s) k"] issued_def driver_defs)
  next
    case (Inr x)
    with b t v show ?thesis
      by (simp add: get_cursor_ok [where body = "and_then (cur_execute s) k"] issued_def driver_defs)
  qed
qed

lemma and_then_pure_world:
  assumes "\<And>x w. snd (k x w) = w"
  shows "snd (and_then m k w) = snd (m w)"
  using assms by (simp add: and_then_def split: prod.splits sum.splits)

lemma and_then_ret_world: "snd (and_then m (\<lambda>x. ret (f x)) w) = snd (m w)"
  by (rule and_then_pure_world) (simp add: ret_def)

lemma get_no_commit: "ver \<noteq> 3 \<Longrightarrow> Commit \<notin> set (issued w (snd (get ver self vector_id w)))"
  unfolding get_def
  by (rule read_no_commit) (auto simp: ret_def split: list.splits)

lemma search_no_commit:
  "ver \<noteq> 3 \<Longrightarrow> Commit \<notin> set (issued w (snd (search ver self query vectors limit filters w)))"
  unfolding search_def and_then_ret_world
  by (rule read_no_commit) (auto simp: ret_def)

lemma list_no_commit:
  "ver \<noteq> 3 \<Longrightarrow> Commit \<notin> set (issued w (snd (list_op ver self filters limit w)))"
  unfolding list_op_def and_then_ret_world
  by (rule read_no_commit) (auto simp: ret_def)

lemma list_cols_no_commit: "ver \<noteq> 3 \<Longrightarrow> Commit \<notin> set (issued w (snd (list_cols ver self w)))"
  unfolding list_cols_def
  by (rule read_no_commit) (auto simp: ret_def)

lemma col_info_no_commit: "ver \<noteq> 3 \<Longrightarrow> Commit \<notin> set (issued w (snd (col_info ver self w)))"
proof -
  assume v: "ver \<noteq> 3"
  have "snd (col_info ver self w) =
      snd (get_cursor ver False
            (and_then (cur_execute (SelectInfo (collection_name self))) (\<lambda>r. ret (info_rows r))) w)"
    unfolding col_info_def
    by (rule and_then_pure_world) (simp add: ret_def split: list.splits)
  moreover have "Commit \<notin> set (issued w (snd (get_cursor ver False
            (and_then (cur_execute (SelectInfo (collection_name self))) (\<lambda>r. ret (info_rows r))) w)))"
    using v by (intro read_no_commit) (auto simp: ret_def)
  ultimately show ?thesis by simp
qed

text \<open>
  C4, as the claim states it, fails with psycopg3: \<open>get\<close> does not request auto-commit and
  its block ends without error, yet a commit is issued when the pool's context is left.
\<close>

theorem read_commits_on_psycopg3:
  "fst (get 3 demo_self uuid_a demo_world) =
     Inr (Some \<lparr>od_id = Some uuid_a, od_score = None, od_payload = Some [(''type'', PStr ''x'')]\<rparr>)
   \<and> issued demo_world (snd (get 3 demo_self uuid_a demo_world)) =
       [Getconn, OpenCursor, Execute (SelectById ''mem'' uuid_a), CloseCursor, Commit, Putconn]"
  by (simp add: get_def op_defs driver_defs demo_defs issued_def uuid_demo)

text \<open>
  C4, amended. When the block of an acquisition ends without error, the facade returns
  the block's value; with psycopg2 it issues a commit exactly when the caller asked for
  auto-commit, and with psycopg3 the flag is not used: leaving the pool's context commits
  in either case. So with psycopg2 none of the read-only operations \<open>search\<close>, \<open>get\<close>,
  \<open>list\<close>, \<open>list_cols\<close> and \<open>col_info\<close> issues a commit, whether it succeeds or fails.
\<close>

theorem commit_follows_flag_on_psycopg2:
  "(\<forall>x w1. body (conn_cursor (pool_getconn w)) = (Inr x, w1) \<longrightarrow>
      fst (get_cursor ver commit body w) = Inr x \<and>
      trace (snd (get_cursor ver commit body w)) =
        trace w1 @ (if ver = 3 then [CloseCursor, Commit, Putconn]
                    else if commit then [Commit, CloseCursor, Putconn]
                    else [CloseCursor, Putconn]))
   \<and> (ver \<noteq> 3 \<longrightarrow>
        Commit \<notin> set (issued w (snd (search ver self query vectors limit filters w))) \<and>
        Commit \<notin> set (issued w (snd (get ver self vector_id w))) \<and>
        Commit \<notin> set (issued w (snd (list_op ver self filters limit w))) \<and>
        Commit \<notin> set (issued w (snd (list_cols ver self w))) \<and>
        Commit \<notin> set (issued w (snd (col_info ver self w))))"
proof -
  have "fst (get_cursor ver commit body w) = Inr x \<and>
      trace (snd (get_cursor ver commit body w)) =
        trace w1 @ (if ver = 3 then [CloseCursor, Commit, Putconn]
                    else if commit then [Commit, CloseCursor, Putconn]
                    else [CloseCursor, Putconn])"
    if "body (conn_cursor (pool_getconn w)) = (Inr x, w1)" for x w1
    using that by (simp add: get_cursor_ok [where body = body] driver_defs)
  then show ?thesis
    by (simp add: search_no_commit get_no_commit list_no_commit list_cols_no_commit col_info_no_commit)
qed

theorem commit_follows_flag_on_psycopg2_witness:
  "fst (list_cols 2 demo_self demo_world) = Inr [''mem'']
   \<and> trace (snd (list_cols 2 demo_self demo_world)) =
       [Getconn, OpenCursor, Execute SelectTables, CloseCursor, Putconn]
   \<and> trace (snd (delete 2 demo_self uuid_a demo_world)) =
       [Getconn, OpenCursor, Execute (DeleteById ''mem'' uuid_a), Commit, CloseCursor, Putconn]
   \<and> trace (snd (list_cols 3 demo_self demo_world)) =
       [Getconn, OpenCursor, Execute SelectTables, CloseCursor, Commit, Putconn]
   \<and> Commit \<notin> set (issued demo_world (snd (get 2 demo_self uuid_absent demo_world)))"
  using commit_follows_flag_on_psycopg2
    [where ver = 2 and commit = False and w = demo_world and self = demo_self and vector_id = uuid_absent
       and body = "and_then (cur_execute SelectTables) (\<lambda>r. ret (name_rows r))"]
  by (simp add: list_cols_def delete_def get_def op_defs driver_defs demo_defs issued_def uuid_demo)

text \<open>
  C5. When the block of an acquisition raises an error (an exception that
  \<^verbatim>\<open>except Exception\<close> catches), the facade rolls the transaction back, so that the
  connection sees the committed data again, and the caller gets the same error. On every
  path, whatever the block did, the last thing the facade does is to return the connection
  to the pool.
\<close>

theorem rollback_and_release:
  "(\<forall>e w1. body (conn_cursor (pool_getconn w)) = (Inl e, w1) \<and> is_Exception e \<longrightarrow>
      fst (get_cursor ver commit body w) = Inl e \<and>
      trace (snd (get_cursor ver commit body w)) =
        trace w1 @ (if ver = 3 then [CloseCursor, Rollback, Putconn] else [Rollback, CloseCursor, Putconn]) \<and>
      committed (snd (get_cursor ver commit body w)) = committed w1 \<and>
      session (snd (get_cursor ver commit body w)) = committed w1)
   \<and> last (trace (snd (get_cursor ver commit body w))) = Putconn"
proof (cases "body (conn_cursor (pool_getconn w))")
  case (Pair r w1)
  show ?thesis
  proof (cases r)
    case (Inl e)
    with Pair show ?thesis by (simp add: get_cursor_raise driver_defs)
  next
    case (Inr x)
    with Pair show ?thesis by (simp add: get_cursor_ok driver_defs)
  qed
qed

theorem rollback_and_release_witness:
  "fst (get 2 demo_self uuid_a fresh_world) = Inl (StatementError ''relation does not exist'')
   \<and> trace (snd (get 2 demo_self uuid_a fresh_world)) =
       [Getconn, OpenCursor, Execute (SelectById ''mem'' uuid_a), Rollback, CloseCursor, Putconn]
   \<and> fst (get 3 demo_self uuid_a fresh_world) = Inl (StatementError ''relation does not exist'')
   \<and> trace (snd (get 3 demo_self uuid_a fresh_world)) =
       [Getconn, OpenCursor, Execute (SelectById ''mem'' uuid_a), CloseCursor, Rollback, Putconn]
   \<and> is_Exception (StatementError ''relation does not exist'')"
  using rollback_and_release
    [where ver = 2 and commit = False and w = fresh_world
       and body = "and_then (cur_execute (SelectById ''mem'' uuid_a)) (\<lambda>r. ret (record_rows r))"]
  by (simp add: get_def op_defs driver_defs demo_defs undefined_table_def uuid_demo)

subsection \<open>Schema: create_col and reset\<close>

lemma exec_create_extension:
  "\<exists>w1. cur_execute (CreateExtension x) w = (Inr NoResult, w1) \<and>
     trace w1 = trace w @ [Execute (CreateExtension x)] \<and>
     committed w1 = committed w \<and>
     tables (session w1) = tables (session w) \<and>
     (y \<in> set (extensions (session w1)) \<longleftrightarrow> y = x \<or> y \<in> set (extensions (session w)))"
  by (auto simp: cur_execute_def Let_def emit_def)

lemma exec_create_table:
  assumes "''vector'' \<in> set (extensions (session w))"
    and "map_of (tables (session w)) n \<noteq> None \<or> 1 \<le> dims \<and> dims \<le> 16000"
  shows "\<exists>w1. cur_execute (CreateTable n dims) w = (Inr NoResult, w1) \<and>
     trace w1 = trace w @ [Execute (CreateTable n dims)] \<and>
     committed w1 = committed w \<and>
     extensions (session w1) = extensions (session w) \<and>
     map_of (tables (session w1)) n =
       (case map_of (tables (session w)) n of
          None \<Rightarrow> Some \<lparr>tbl_dims = dims, tbl_rows = [], tbl_indexes = []\<rparr>
        | Some t \<Rightarrow> Some t)"
  using assms
  by (auto simp: cur_execute_def Let_def emit_def map_add_def split: option.splits)

lemma exec_select_extension:
  "\<exists>r. cur_execute (SelectExtension x) w = (Inr r, emit (Execute (SelectExtension x)) w) \<and>
     (result_size r \<noteq> 0 \<longleftrightarrow> x \<in> set (extensions (session w)))"
  by (auto simp: cur_execute_def Let_def emit_def filter_empty_conv)

lemma exec_create_index:
  assumes "map_of (tables (session w)) n = Some t"
    and "(case m of Hnsw \<Rightarrow> ''vector'' | Diskann \<Rightarrow> ''vectorscale'') \<in> set (extensions (session w))"
    and "i \<notin> set (map fst (tbl_indexes t))"
  shows "\<exists>r w1. cur_execute (CreateIndex i n m) w = (r, w1) \<and>
     trace w1 = trace w @ [Execute (CreateIndex i n m)] \<and>
     committed w1 = committed w \<and>
     (if m = Hnsw \<and> 2000 < tbl_dims t then r = Inl hnsw_limit
      else r = Inr NoResult \<and>
           map_of (tables (session w1)) n = Some (t\<lparr>tbl_indexes := tbl_indexes t @ [(i, m)]\<rparr>))"
  using assms
  by (auto simp: cur_execute_def Let_def emit_def with_table_def map_of_put_table)

lemma create_col_block: "create_col ver self = get_cursor ver True (create_col_block self)"
  by (simp add: create_col_def create_col_block_def)

lemma and_then_exec_ret:
  "cur_execute s w = (r, w1) \<Longrightarrow>
   and_then (cur_execute s) (\<lambda>_. ret ()) w = ((case r of Inl e \<Rightarrow> Inl e | Inr x \<Rightarrow> Inr ()), w1)"
  by (simp add: and_then_def ret_def split: sum.splits)

lemma block_trace:
  assumes H: "table_exists (session w) (collection_name self) \<or>
      1 \<le> embedding_model_dims self \<and> embedding_model_dims self \<le> 16000"
  shows "\<exists>r w'. create_col_block self w = (r, w') \<and>
     trace w' = trace w @ [Execute (CreateExtension ''vector''),
                  Execute (CreateTable (collection_name self) (embedding_model_dims self))]
       @ index_part self (''vectorscale'' \<in> set (extensions (session w)))"
proof -
  let ?n = "collection_name self" and ?d = "embedding_model_dims self"
  obtain w1 where 1: "cur_execute (CreateExtension ''vector'') w = (Inr NoResult, w1)"
    and t1: "trace w1 = trace w @ [Execute (CreateExtension ''vector'')]"
    and tb1: "tables (session w1) = tables (session w)"
    and v1: "''vector'' \<in> set (extensions (session w1))"
    and e1: "''vectorscale'' \<in> set (extensions (session w1)) \<longleftrightarrow> ''vectorscale'' \<in> set (extensions (session w))"
    using exec_create_extension [of "''vector''" w "''vectorscale''"]
      exec_create_extension [of "''vector''" w "''vector''"] by auto
  from H tb1 have H1: "map_of (tables (session w1)) ?n \<noteq> None \<or> 1 \<le> ?d \<and> ?d \<le> 16000"
    by (simp add: table_exists_def)
  obtain w2 where 2: "cur_execute (CreateTable ?n ?d) w1 = (Inr NoResult, w2)"
    and t2: "trace w2 = trace w1 @ [Execute (CreateTable ?n ?d)]"
    and e2: "extensions (session w2) = extensions (session w1)"
    using exec_create_table [OF v1 H1] by blast
  obtain r3 where 3: "cur_execute (SelectExtension ''vectorscale'') w2 = (Inr r3, emit (Execute (SelectExtension ''vectorscale'')) w2)"
    and r3: "result_size r3 \<noteq> 0 \<longleftrightarrow> ''vectorscale'' \<in> set (extensions (session w2))"
    using exec_select_extension [of "''vectorscale''" w2] by auto
  obtain r4 w4 where 4: "cur_execute (CreateIndex (?n @ ''_diskann_idx'') ?n Diskann)
         (emit (Execute (SelectExtension ''vectorscale'')) w2) = (r4, w4)"
    by (cases "cur_execute (CreateIndex (?n @ ''_diskann_idx'') ?n Diskann)
         (emit (Execute (SelectExtension ''vectorscale'')) w2)") 
  obtain r5 w5 where 5: "cur_execute (CreateIndex (?n @ ''_hnsw_idx'') ?n Hnsw) w2 = (r5, w5)"
    by (cases "cur_execute (CreateIndex (?n @ ''_hnsw_idx'') ?n Hnsw) w2")
  note t4 = cur_execute_world [OF 4] and t5 = cur_execute_world [OF 5]
  show ?thesis
    using 1 2 3 t1 t2 e1 e2 r3 t4 t5 and_then_exec_ret [OF 4] and_then_exec_ret [OF 5]
    by (simp add: create_col_block_def and_then_def ret_def index_part_def emit_def)
qed

lemma get_cursor_tail:
  "\<exists>tail. trace (snd (get_cursor ver commit body w)) =
       trace (snd (body (conn_cursor (pool_getconn w)))) @ tail \<and> index_stmts tail = [] \<and>
     fst (get_cursor ver commit body w) = fst (body (conn_cursor (pool_getconn w)))"
  by (cases "body (conn_cursor (pool_getconn w))")
     (auto simp: get_cursor_def pool_connection_def cursor_scope_def driver_defs split: sum.splits)

lemma index_stmts_append: "index_stmts (xs @ ys) = index_stmts xs @ index_stmts ys"
  by (induction xs rule: index_stmts.induct) auto

lemma statements_sent:
  assumes H: "table_exists (session w) (collection_name self) \<or>
      1 \<le> embedding_model_dims self \<and> embedding_model_dims self \<le> 16000"
  shows "index_stmts (issued w (snd (create_col ver self w))) =
      index_stmts (index_part self (''vectorscale'' \<in> set (extensions (session w))))"
proof -
  let ?w0 = "conn_cursor (pool_getconn w)"
  have H0: "table_exists (session ?w0) (collection_name self) \<or>
      1 \<le> embedding_model_dims self \<and> embedding_model_dims self \<le> 16000"
    using H by (simp add: driver_defs)
  from block_trace [OF H0] obtain r w1 where b: "create_col_block self ?w0 = (r, w1)"
    and t: "trace w1 = trace ?w0 @ [Execute (CreateExtension ''vector''),
                  Execute (CreateTable (collection_name self) (embedding_model_dims self))]
       @ index_part self (''vectorscale'' \<in> set (extensions (session ?w0)))" by blast
  from get_cursor_tail [of ver True "create_col_block self" w] b
  obtain tail where "trace (snd (create_col ver self w)) = trace w1 @ tail" "index_stmts tail = []"
    by (auto simp: create_col_block)
  with t show ?thesis
    by (simp add: issued_def driver_defs index_stmts_append)
qed

lemma block_fresh:
  assumes fresh: "map_of (tables (session w)) (collection_name self) = None"
    and dims: "1 \<le> embedding_model_dims self" "embedding_model_dims self \<le> 16000"
  shows "\<exists>r w'. create_col_block self w = (r, w') \<and> committed w' = committed w \<and>
     (if (use_diskann self \<longrightarrow> 2000 \<le> embedding_model_dims self) \<and> use_hnsw self
          \<and> 2000 < embedding_model_dims self
      then r = Inl hnsw_limit
      else r = Inr () \<and>
           map_of (tables (session w')) (collection_name self) =
             Some \<lparr>tbl_dims = embedding_model_dims self, tbl_rows = [],
                   tbl_indexes = index_choice self (''vectorscale'' \<in> set (extensions (session w)))\<rparr>)"
proof -
  let ?n = "collection_name self" and ?d = "embedding_model_dims self"
  let ?t = "\<lparr>tbl_dims = ?d, tbl_rows = [], tbl_indexes = []\<rparr>"
  obtain w1 where 1: "cur_execute (CreateExtension ''vector'') w = (Inr NoResult, w1)"
    and c1: "committed w1 = committed w"
    and tb1: "tables (session w1) = tables (session w)"
    and v1: "''vector'' \<in> set (extensions (session w1))"
    and e1: "''vectorscale'' \<in> set (extensions (session w1)) \<longleftrightarrow> ''vectorscale'' \<in> set (extensions (session w))"
    using exec_create_extension [of "''vector''" w "''vectorscale''"]
      exec_create_extension [of "''vector''" w "''vector''"] by auto
  from dims have H1: "map_of (tables (session w1)) ?n \<noteq> None \<or> 1 \<le> ?d \<and> ?d \<le> 16000"
    by simp
  obtain w2 where 2: "cur_execute (CreateTable ?n ?d) w1 = (Inr NoResult, w2)"
    and c2: "committed w2 = committed w1"
    and e2: "extensions (session w2) = extensions (session w1)"
    and m2: "map_of (tables (session w2)) ?n = Some ?t"
    using exec_create_table [OF v1 H1] fresh tb1 by auto
  obtain r3 where 3: "cur_execute (SelectExtension ''vectorscale'') w2 = (Inr r3, emit (Execute (SelectExtension ''vectorscale'')) w2)"
    and r3: "result_size r3 \<noteq> 0 \<longleftrightarrow> ''vectorscale'' \<in> set (extensions (session w2))"
    using exec_select_extension [of "''vectorscale''" w2] by auto
  let ?w3 = "emit (Execute (SelectExtension ''vectorscale'')) w2"
  have m3: "map_of (tables (session ?w3)) ?n = Some ?t" and c3: "committed ?w3 = committed w2"
    and e3: "extensions (session ?w3) = extensions (session w2)"
    using m2 by (simp_all add: emit_def)
  show ?thesis
  proof (cases "use_diskann self \<and> ?d < 2000")
    case True
    show ?thesis
    proof (cases "''vectorscale'' \<in> set (extensions (session w))")
      case inst: True
      with e1 e2 e3 have am: "(case Diskann of Hnsw \<Rightarrow> ''vector'' | Diskann \<Rightarrow> ''vectorscale'') \<in> set (extensions (session ?w3))"
        by simp
      have ni: "(?n @ ''_diskann_idx'') \<notin> set (map fst (tbl_indexes ?t))" by simp
      from exec_create_index [OF m3 am ni] obtain r4 w4 where
        4: "cur_execute (CreateIndex (?n @ ''_diskann_idx'') ?n Diskann) ?w3 = (r4, w4)"
        and c4: "committed w4 = committed ?w3"
        and o4: "r4 = Inr NoResult"
        and m4: "map_of (tables (session w4)) ?n = Some (?t\<lparr>tbl_indexes := tbl_indexes ?t @ [(?n @ ''_diskann_idx'', Diskann)]\<rparr>)"
        by auto
      show ?thesis
        using True inst 1 2 3 r3 e1 e2 4 o4 m4 c1 c2 c3 c4
        by (simp add: create_col_block_def and_then_def ret_def index_choice_def)
    next
      case noinst: False
      show ?thesis
        using True noinst 1 2 3 r3 e1 e2 m3 c1 c2 c3
        by (simp add: create_col_block_def and_then_def ret_def index_choice_def)
    qed
  next
    case False
    show ?thesis
    proof (cases "use_hnsw self")
      case h: True
      from v1 e2 have am: "(case Hnsw of Hnsw \<Rightarrow> ''vector'' | Diskann \<Rightarrow> ''vectorscale'') \<in> set (extensions (session w2))"
        by simp
      have ni: "(?n @ ''_hnsw_idx'') \<notin> set (map fst (tbl_indexes ?t))" by simp
      from exec_create_index [OF m2 am ni] obtain r5 w5 where
        5: "cur_execute (CreateIndex (?n @ ''_hnsw_idx'') ?n Hnsw) w2 = (r5, w5)"
        and c5: "committed w5 = committed w2"
        and o5: "if 2000 < ?d then r5 = Inl hnsw_limit
                 else r5 = Inr NoResult \<and>
                   map_of (tables (session w5)) ?n = Some (?t\<lparr>tbl_indexes := tbl_indexes ?t @ [(?n @ ''_hnsw_idx'', Hnsw)]\<rparr>)"
        by auto
      show ?thesis
        using False h 1 2 5 o5 c1 c2 c5
        by (auto simp add: create_col_block_def and_then_def ret_def index_choice_def split: if_splits)
    next
      case noh: False
      show ?thesis
        using False noh 1 2 m2 c1 c2
        by (auto simp add: create_col_block_def and_then_def ret_def index_choice_def)
    qed
  qed
qed

lemma create_col_fresh:
  assumes fresh: "\<not> table_exists (session w) (collection_name self)"
    and dims: "1 \<le> embedding_model_dims self" "embedding_model_dims self \<le> 16000"
  shows "if (use_diskann self \<longrightarrow> 2000 \<le> embedding_model_dims self) \<and> use_hnsw self
          \<and> 2000 < embedding_model_dims self
      then fst (create_col ver self w) = Inl hnsw_limit \<and>
           committed (snd (create_col ver self w)) = committed w
      else fst (create_col ver self w) = Inr () \<and>
           map_of (tables (committed (snd (create_col ver self w)))) (collection_name self) =
             Some \<lparr>tbl_dims = embedding_model_dims self, tbl_rows = [],
                   tbl_indexes = index_choice self (''vectorscale'' \<in> set (extensions (session w)))\<rparr>"
proof -
  let ?w0 = "conn_cursor (pool_getconn w)"
  from fresh have f0: "map_of (tables (session ?w0)) (collection_name self) = None"
    by (simp add: table_exists_def driver_defs)
  from block_fresh [OF f0 dims] obtain r w1 where b: "create_col_block self ?w0 = (r, w1)"
    and c: "committed w1 = committed ?w0"
    and o: "if (use_diskann self \<longrightarrow> 2000 \<le> embedding_model_dims self) \<and> use_hnsw self
          \<and> 2000 < embedding_model_dims self
      then r = Inl hnsw_limit
      else r = Inr () \<and>
           map_of (tables (session w1)) (collection_name self) =
             Some \<lparr>tbl_dims = embedding_model_dims self, tbl_rows = [],
                   tbl_indexes = index_choice self (''vectorscale'' \<in> set (extensions (session ?w0)))\<rparr>"
    by blast
  show ?thesis
    using b c o
    by (auto simp: create_col_block get_cursor_def pool_connection_def cursor_scope_def driver_defs
        hnsw_limit_def split: if_splits)
qed

lemma exec_drop_table:
  "\<exists>w1. cur_execute (DropTable n) w = (Inr NoResult, w1) \<and>
     trace w1 = trace w @ [Execute (DropTable n)] \<and>
     map_of (tables (session w1)) n = None"
  by (auto simp: cur_execute_def Let_def emit_def map_of_eq_None_iff)

lemma delete_col_run:
  "\<exists>w'. delete_col ver self w = (Inr (), w') \<and>
     trace w' = trace w @ [Getconn, OpenCursor, Execute (DropTable (collection_name self))]
       @ (if ver = 3 then [CloseCursor, Commit, Putconn] else [Commit, CloseCursor, Putconn]) \<and>
     map_of (tables (committed w')) (collection_name self) = None"
proof -
  from exec_drop_table [of "collection_name self" "conn_cursor (pool_getconn w)"]
  obtain w1 where "cur_execute (DropTable (collection_name self)) (conn_cursor (pool_getconn w)) = (Inr NoResult, w1)"
    "trace w1 = trace (conn_cursor (pool_getconn w)) @ [Execute (DropTable (collection_name self))]"
    "map_of (tables (session w1)) (collection_name self) = None" by blast
  then have "and_then (cur_execute (DropTable (collection_name self))) (\<lambda>_. ret ()) (conn_cursor (pool_getconn w))
       = (Inr (), w1)"
    by (simp add: and_then_def ret_def)
  with \<open>trace w1 = _\<close> \<open>map_of (tables (session w1)) (collection_name self) = None\<close>
  show ?thesis
    unfolding delete_col_def
    by (simp add: get_cursor_ok [where body = "and_then (cur_execute (DropTable (collection_name self))) (\<lambda>_. ret ())"]
        driver_defs)
qed

text \<open>
  C1. \<open>reset\<close> at any world, with either driver: the warning is logged first and the
  table is dropped and the drop committed; then the call \<^verbatim>\<open>self.create_col(cur)\<close> raises
  \<^verbatim>\<open>TypeError\<close> before \<open>create_col\<close> runs, the facade rolls back, and \<open>reset\<close> ends with that
  error. No statement that creates the table or an index is sent, and the collection
  does not exist afterwards.
\<close>

theorem reset_raises_after_drop:
  "fst (reset ver self w) = Inl (TypeError ''create_col() takes 1 positional argument but 2 were given'')
   \<and> \<not> table_exists (committed (snd (reset ver self w))) (collection_name self)
   \<and> issued w (snd (reset ver self w)) =
       [LogWarning (''Resetting index '' @ collection_name self @ ''...''),
        Getconn, OpenCursor, Execute (DropTable (collection_name self))]
       @ (if ver = 3 then [CloseCursor, Commit, Putconn] else [Commit, CloseCursor, Putconn])
       @ [Getconn, OpenCursor]
       @ (if ver = 3 then [CloseCursor, Rollback, Putconn] else [Rollback, CloseCursor, Putconn])"
proof -
  let ?w1 = "emit (LogWarning (''Resetting index '' @ collection_name self @ ''...'')) w"
  from delete_col_run [of ver self ?w1] obtain w2 where
    d: "delete_col ver self ?w1 = (Inr (), w2)"
    and t: "trace w2 = trace ?w1 @ [Getconn, OpenCursor, Execute (DropTable (collection_name self))]
       @ (if ver = 3 then [CloseCursor, Commit, Putconn] else [Commit, CloseCursor, Putconn])"
    and m: "map_of (tables (committed w2)) (collection_name self) = None" by blast
  have c: "call_create_col ver self 1 (conn_cursor (pool_getconn w2)) =
      (Inl (TypeError ''create_col() takes 1 positional argument but 2 were given''), conn_cursor (pool_getconn w2))"
    by (simp add: call_create_col_def)
  have g: "get_cursor ver True (call_create_col ver self 1) w2 =
      (Inl (TypeError ''create_col() takes 1 positional argument but 2 were given''),
       if ver = 3 then pool_putconn (conn_rollback (cur_close (conn_cursor (pool_getconn w2))))
       else pool_putconn (cur_close (if is_Exception (TypeError ''create_col() takes 1 positional argument but 2 were given'')
                                     then conn_rollback (conn_cursor (pool_getconn w2))
                                     else conn_cursor (pool_getconn w2))))"
    using c by (rule get_cursor_raise)
  have r: "reset ver self w = get_cursor ver True (call_create_col ver self 1) w2"
    using d by (simp add: reset_def Let_def and_then_def)
  show ?thesis
    unfolding r g using t m
    by (simp add: driver_defs issued_def table_exists_def)
qed

text \<open>
  C2, as the claim states it, fails: with DiskANN and HNSW both requested, fewer than
  2000 dimensions and no DiskANN extension, \<open>create_col\<close> succeeds, sends no index
  statement and the new table has no index.
\<close>

theorem diskann_without_extension_no_index:
  "use_diskann demo_diskann \<and> use_hnsw demo_diskann \<and> embedding_model_dims demo_diskann < 2000
   \<and> ''vectorscale'' \<notin> set (extensions (session fresh_world))
   \<and> fst (create_col 2 demo_diskann fresh_world) = Inr ()
   \<and> issued fresh_world (snd (create_col 2 demo_diskann fresh_world)) =
       [Getconn, OpenCursor, Execute (CreateExtension ''vector''), Execute (CreateTable ''mem'' 4),
        Execute (SelectExtension ''vectorscale''), Commit, CloseCursor, Putconn]
   \<and> tables (committed (snd (create_col 2 demo_diskann fresh_world))) =
       [(''mem'', \<lparr>tbl_dims = 4, tbl_rows = [], tbl_indexes = []\<rparr>)]"
  by (simp add: create_col_def op_defs driver_defs demo_defs issued_def)

text \<open>
  C2, amended. Where the engine accepts the table statement (the table exists, or the
  dimensionality is between 1 and 16000), \<open>create_col\<close> sends at most one index statement:
  the DiskANN statement exactly when DiskANN is requested, the dimensionality is below
  2000 and the extension is installed; the HNSW statement exactly when HNSW is enabled and
  the DiskANN branch is not taken (DiskANN not requested, or 2000 dimensions or more).
  When the DiskANN branch is taken and the extension is absent, no index statement is
  sent, whether or not HNSW is enabled. For a new collection of at most 2000 dimensions
  \<open>create_col\<close> succeeds and the table has exactly the index asked for. For a new
  collection of more than 2000 dimensions with HNSW enabled, the engine refuses the HNSW
  statement: \<open>create_col\<close> raises and the committed data is as before.
\<close>

theorem index_selection:
  "(table_exists (session w) (collection_name self) \<or>
      1 \<le> embedding_model_dims self \<and> embedding_model_dims self \<le> 16000 \<longrightarrow>
      index_stmts (issued w (snd (create_col ver self w))) =
        (if use_diskann self \<and> embedding_model_dims self < 2000 then
           (if ''vectorscale'' \<in> set (extensions (session w))
            then [CreateIndex (collection_name self @ ''_diskann_idx'') (collection_name self) Diskann]
            else [])
         else if use_hnsw self then
           [CreateIndex (collection_name self @ ''_hnsw_idx'') (collection_name self) Hnsw]
         else []))
   \<and> (\<not> table_exists (session w) (collection_name self) \<and>
        1 \<le> embedding_model_dims self \<and> embedding_model_dims self \<le> 2000 \<longrightarrow>
        fst (create_col ver self w) = Inr () \<and>
        indexes_of (committed (snd (create_col ver self w))) (collection_name self) =
          (if use_diskann self \<and> embedding_model_dims self < 2000 then
             (if ''vectorscale'' \<in> set (extensions (session w))
              then [(collection_name self @ ''_diskann_idx'', Diskann)]
              else [])
           else if use_hnsw self then [(collection_name self @ ''_hnsw_idx'', Hnsw)]
           else []))
   \<and> (\<not> table_exists (session w) (collection_name self) \<and>
        2000 < embedding_model_dims self \<and> embedding_model_dims self \<le> 16000 \<and> use_hnsw self \<longrightarrow>
        fst (create_col ver self w) =
          Inl (StatementError ''column cannot have more than 2000 dimensions for hnsw index'') \<and>
        committed (snd (create_col ver self w)) = committed w)"
proof -
  have a: "index_stmts (issued w (snd (create_col ver self w))) =
        (if use_diskann self \<and> embedding_model_dims self < 2000 then
           (if ''vectorscale'' \<in> set (extensions (session w))
            then [CreateIndex (collection_name self @ ''_diskann_idx'') (collection_name self) Diskann]
            else [])
         else if use_hnsw self then
           [CreateIndex (collection_name self @ ''_hnsw_idx'') (collection_name self) Hnsw]
         else [])"
    if "table_exists (session w) (collection_name self) \<or>
      1 \<le> embedding_model_dims self \<and> embedding_model_dims self \<le> 16000"
    using statements_sent [OF that, of ver] by (simp add: index_part_def)
  have b: "fst (create_col ver self w) = Inr () \<and>
        indexes_of (committed (snd (create_col ver self w))) (collection_name self) =
          (if use_diskann self \<and> embedding_model_dims self < 2000 then
             (if ''vectorscale'' \<in> set (extensions (session w))
              then [(collection_name self @ ''_diskann_idx'', Diskann)]
              else [])
           else if use_hnsw self then [(collection_name self @ ''_hnsw_idx'', Hnsw)]
           else [])"
    if "\<not> table_exists (session w) (collection_name self)"
      and "1 \<le> embedding_model_dims self" and "embedding_model_dims self \<le> 2000"
    using create_col_fresh [OF that(1) that(2), of ver] that(3)
    by (simp add: indexes_of_def index_choice_def)
  have c: "fst (create_col ver self w) =
          Inl (StatementError ''column cannot have more than 2000 dimensions for hnsw index'') \<and>
        committed (snd (create_col ver self w)) = committed w"
    if "\<not> table_exists (session w) (collection_name self)"
      and "2000 < embedding_model_dims self" and "embedding_model_dims self \<le> 16000" and "use_hnsw self"
    using create_col_fresh [OF that(1) _ that(3), of ver] that(2) that(4)
    by (simp add: hnsw_limit_def)
  from a b c show ?thesis by blast
qed

theorem index_selection_witness:
  "index_stmts (issued scale_world (snd (create_col 2 demo_diskann scale_world))) =
     [CreateIndex ''mem_diskann_idx'' ''mem'' Diskann]
   \<and> indexes_of (committed (snd (create_col 2 demo_diskann scale_world))) ''mem'' =
     [(''mem_diskann_idx'', Diskann)]
   \<and> index_stmts (issued fresh_world (snd (create_col 3 demo_diskann fresh_world))) = []
   \<and> indexes_of (committed (snd (create_col 3 demo_diskann fresh_world))) ''mem'' = []
   \<and> fst (create_col 3 demo_wide fresh_world) = Inr ()
   \<and> indexes_of (committed (snd (create_col 3 demo_wide fresh_world))) ''mem'' = [(''mem_hnsw_idx'', Hnsw)]
   \<and> index_stmts (issued fresh_world (snd (create_col 3 demo_large fresh_world))) =
     [CreateIndex ''mem_hnsw_idx'' ''mem'' Hnsw]
   \<and> fst (create_col 3 demo_large fresh_world) =
     Inl (StatementError ''column cannot have more than 2000 dimensions for hnsw index'')
   \<and> committed (snd (create_col 3 demo_large fresh_world)) = empty_db"
  using index_selection [of scale_world demo_diskann 2] index_selection [of fresh_world demo_diskann 3]
    index_selection [of fresh_world demo_wide 3] index_selection [of fresh_world demo_large 3]
  by (simp add: demo_defs demo_wide_def demo_large_def scale_world_def table_exists_def)

subsection \<open>Listing\<close>

text \<open>
  C3. After \<open>create_col\<close> and the insertion of three records whose identifiers are UUIDs,
  \<open>list\<close> with limit 10 returns a list of one element, and that element is the list of
  the three records. With the identifiers a, b and c, which are not UUIDs, the insert
  is refused and \<open>list\<close> returns a list of one element, the empty list.
\<close>

theorem list_returns_nested_list:
  "fst (list_op 2 demo_self None (Some 10)
     (snd (insert_op 2 demo_self [[1, 0, 0, 0], [0, 1, 0, 0], [0, 0, 1, 0]]
        (Some [Some [(''type'', PStr ''x'')], Some [(''type'', PStr ''y'')], Some [(''year'', PInt 2020)]])
        (Some [uuid_a, uuid_b, uuid_c])
        (snd (create_col 2 demo_self fresh_world))))) =
   Inr [[\<lparr>od_id = Some uuid_a, od_score = None, od_payload = Some [(''type'', PStr ''x'')]\<rparr>,
         \<lparr>od_id = Some uuid_b, od_score = None, od_payload = Some [(''type'', PStr ''y'')]\<rparr>,
         \<lparr>od_id = Some uuid_c, od_score = None, od_payload = Some [(''year'', PInt 2020)]\<rparr>]]
   \<and> fst (insert_op 2 demo_self [[1, 0, 0, 0], [0, 1, 0, 0], [0, 0, 1, 0]]
        (Some [Some [(''type'', PStr ''x'')], Some [(''type'', PStr ''y'')], Some [(''year'', PInt 2020)]])
        (Some [''a'', ''b'', ''c''])
        (snd (create_col 2 demo_self fresh_world))) =
     Inl (StatementError ''invalid input syntax for type uuid'')
   \<and> fst (list_op 2 demo_self None (Some 10)
     (snd (insert_op 2 demo_self [[1, 0, 0, 0], [0, 1, 0, 0], [0, 0, 1, 0]]
        (Some [Some [(''type'', PStr ''x'')], Some [(''type'', PStr ''y'')], Some [(''year'', PInt 2020)]])
        (Some [''a'', ''b'', ''c''])
        (snd (create_col 2 demo_self fresh_world))))) = Inr [[]]"
  by (simp add: list_op_def list_stmt_def filter_lists_def filter_clause_def insert_op_def create_col_def
       execute_values_def paginate.simps op_defs driver_defs demo_defs Let_def uuid_demo invalid_uuid_def)

subsection \<open>Point operations: get, update, delete\<close>

lemma update_block: "update ver self vector_id vector payload = get_cursor ver True (update_block ver self vector_id vector payload)"
  by (simp add: update_def update_block_def)

lemma update_rows_same:
  assumes "\<And>r. r \<in> set (rows_of d n) \<Longrightarrow> f r = r"
  shows "update_rows d n f = d"
proof (cases "map_of (tables d) n")
  case None
  then show ?thesis by (simp add: update_rows_def)
next
  case (Some t)
  with assms have "map f (tbl_rows t) = tbl_rows t"
    by (simp add: rows_of_def map_idI)
  with Some show ?thesis
    by (simp add: update_rows_def set_rows_def put_table_same)
qed

lemma rows_of_update_rows: "rows_of (update_rows d n f) n = map f (rows_of d n)"
  by (simp add: update_rows_def rows_of_def set_rows_def map_of_put_table split: option.splits)

lemma map_of_update_rows:
  "map_of (tables (update_rows d n f)) n = map_option (\<lambda>t. t\<lparr>tbl_rows := map f (tbl_rows t)\<rparr>) (map_of (tables d) n)"
  by (simp add: update_rows_def set_rows_def map_of_put_table split: option.splits)

lemma update_rows_twice: "update_rows (update_rows d n f) n g = update_rows d n (g \<circ> f)"
  by (simp add: update_rows_def set_rows_def map_of_put_table put_table_twice split: option.splits)

lemma table_exists_update_rows: "table_exists (update_rows d n f) m = table_exists d m"
  by (auto simp add: update_rows_def table_exists_def set_rows_def map_of_put_table split: option.splits)

lemma dims_of_update_rows: "dims_of (update_rows d n f) m = dims_of d m"
  by (auto simp add: update_rows_def dims_of_def set_rows_def map_of_put_table split: option.splits)

lemma exec_update_vector:
  "table_exists (session w) n \<Longrightarrow>
   cur_execute (UpdateVector n v i) w =
     (case uuid_in i of
        None \<Rightarrow> (Inl invalid_uuid, emit (Execute (UpdateVector n v i)) w)
      | Some u \<Rightarrow>
          if int (length v) \<noteq> dims_of (session w) n
          then (Inl wrong_dimensions, emit (Execute (UpdateVector n v i)) w)
          else (Inr NoResult, (emit (Execute (UpdateVector n v i)) w)
                 \<lparr>session := update_rows (session w) n (\<lambda>r. if row_id r = u then r\<lparr>row_vector := v\<rparr> else r)\<rparr>))"
  by (auto simp: cur_execute_def Let_def emit_def with_table_def update_rows_def table_exists_def dims_of_def
      split: option.splits)

lemma exec_update_payload:
  "table_exists (session w) n \<Longrightarrow>
   cur_execute (UpdatePayload n p i) w =
     (case uuid_in i of
        None \<Rightarrow> (Inl invalid_uuid, emit (Execute (UpdatePayload n p i)) w)
      | Some u \<Rightarrow>
          (Inr NoResult, (emit (Execute (UpdatePayload n p i)) w)
             \<lparr>session := update_rows (session w) n (\<lambda>r. if row_id r = u then r\<lparr>row_payload := Some p\<rparr> else r)\<rparr>))"
  by (auto simp: cur_execute_def Let_def emit_def with_table_def update_rows_def table_exists_def
      split: option.splits)

lemma update_block_run:
  assumes t: "table_exists (session w) (collection_name self)"
  shows "update_block ver self vector_id vector payload w =
     (case update_error (session w) (collection_name self) vector_id vector payload of
        None \<Rightarrow>
          (Inr (), w\<lparr>trace := trace w @ update_stmts (collection_name self) vector_id vector payload,
                    session := update_rows (session w) (collection_name self)
                      (update_outcome (session w) (collection_name self) vector_id vector payload)\<rparr>)
      | Some e \<Rightarrow>
          (Inl e, w\<lparr>trace := trace w @ take 1 (update_stmts (collection_name self) vector_id vector payload)\<rparr>))"
proof -
  let ?n = "collection_name self"
  have idf: "update_rows (session w) ?n (\<lambda>r. r) = session w"
    by (rule update_rows_same) simp
  have both: "(\<lambda>r. if row_id r = u then r\<lparr>row_payload := Some p\<rparr> else r) \<circ>
      (\<lambda>r. if row_id r = u then r\<lparr>row_vector := v\<rparr> else r) =
      (\<lambda>r. if row_id r = u then r\<lparr>row_vector := v, row_payload := Some p\<rparr> else r)" for u v p
    by (auto simp: fun_eq_iff)
  show ?thesis
    using t
    apply (cases vector; cases payload; cases "uuid_in vector_id")
    apply (simp_all add: update_block_def and_then_def ret_def update_stmts_def update_error_def
        update_outcome_def [abs_def] update_row_def [abs_def] idf
        exec_update_vector exec_update_payload emit_def table_exists_update_rows dims_of_update_rows
        update_rows_twice both cong: if_cong)
    done
qed


lemma error_is_Exception: "is_Exception invalid_uuid" "is_Exception wrong_dimensions"
  by (simp_all add: invalid_uuid_def wrong_dimensions_def)

lemma update_run:
  assumes te: "table_exists (session w) (collection_name self)"
  shows "fst (update ver self vector_id vector payload w) =
       (case update_error (session w) (collection_name self) vector_id vector payload of
          None \<Rightarrow> Inr () | Some e \<Rightarrow> Inl e)
     \<and> committed (snd (update ver self vector_id vector payload w)) =
       (case update_error (session w) (collection_name self) vector_id vector payload of
          None \<Rightarrow> update_rows (session w) (collection_name self)
                    (update_outcome (session w) (collection_name self) vector_id vector payload)
        | Some e \<Rightarrow> committed w)
     \<and> (update_error (session w) (collection_name self) vector_id vector payload = None \<longrightarrow>
        issued w (snd (update ver self vector_id vector payload w)) =
          [Getconn, OpenCursor] @ update_stmts (collection_name self) vector_id vector payload
            @ (if ver = 3 then [CloseCursor, Commit, Putconn] else [Commit, CloseCursor, Putconn]))"
proof -
  let ?w0 = "conn_cursor (pool_getconn w)"
  from te have te0: "table_exists (session ?w0) (collection_name self)"
    by (simp add: driver_defs)
  have s0: "session ?w0 = session w"
    by (simp add: driver_defs)
  note b = update_block_run [OF te0, of ver vector_id vector payload, unfolded s0]
  show ?thesis
  proof (cases "update_error (session w) (collection_name self) vector_id vector payload")
    case None
    with b have b': "update_block ver self vector_id vector payload ?w0 =
        (Inr (), ?w0\<lparr>trace := trace ?w0 @ update_stmts (collection_name self) vector_id vector payload,
                    session := update_rows (session w) (collection_name self)
                      (update_outcome (session w) (collection_name self) vector_id vector payload)\<rparr>)"
      by simp
    note g = get_cursor_ok [where body = "update_block ver self vector_id vector payload"
        and ver = ver and commit = True, OF b']
    show ?thesis
      unfolding update_block g using None
      by (simp add: driver_defs issued_def)
  next
    case (Some e)
    then have e: "is_Exception e"
      by (auto simp: update_error_def error_is_Exception split: if_splits option.splits)
    from Some b have b': "update_block ver self vector_id vector payload ?w0 =
        (Inl e, ?w0\<lparr>trace := trace ?w0 @ take 1 (update_stmts (collection_name self) vector_id vector payload)\<rparr>)"
      by simp
    note g = get_cursor_raise [where body = "update_block ver self vector_id vector payload"
        and ver = ver and commit = True, OF b']
    show ?thesis
      unfolding update_block g using Some e
      by (simp add: driver_defs)
  qed
qed

lemma update_committed:
  assumes "idle w" and "table_exists (committed w) (collection_name self)"
  shows "committed (snd (update ver self vector_id vector payload w)) =
     update_rows (committed w) (collection_name self)
       (update_outcome (committed w) (collection_name self) vector_id vector payload)"
proof -
  from assms have s: "session w = committed w" by (simp add: idle_def)
  with assms have te: "table_exists (session w) (collection_name self)" by simp
  show ?thesis
  proof (cases "update_error (session w) (collection_name self) vector_id vector payload")
    case None
    with update_run [OF te, of ver vector_id vector payload] s show ?thesis by simp
  next
    case (Some e)
    then have "update_rows (committed w) (collection_name self)
       (update_outcome (committed w) (collection_name self) vector_id vector payload) = committed w"
      using s by (intro update_rows_same) (simp add: update_outcome_def)
    with Some update_run [OF te, of ver vector_id vector payload] s show ?thesis by simp
  qed
qed

lemma exec_select_by_id:
  "table_exists (session w) n \<Longrightarrow>
   cur_execute (SelectById n i) w =
     (case uuid_in i of
        None \<Rightarrow> (Inl invalid_uuid, emit (Execute (SelectById n i)) w)
      | Some u \<Rightarrow>
          (Inr (RecordRows (map row_tuple (filter (\<lambda>r. row_id r = u) (rows_of (session w) n)))),
           emit (Execute (SelectById n i)) w))"
  by (auto simp: cur_execute_def Let_def emit_def with_table_def table_exists_def rows_of_def
      split: option.splits)

lemma exec_delete:
  "table_exists (session w) n \<Longrightarrow>
   cur_execute (DeleteById n i) w =
     (case uuid_in i of
        None \<Rightarrow> (Inl invalid_uuid, emit (Execute (DeleteById n i)) w)
      | Some u \<Rightarrow>
          (Inr NoResult, (emit (Execute (DeleteById n i)) w)
             \<lparr>session := (case map_of (tables (session w)) n of None \<Rightarrow> session w
                           | Some t \<Rightarrow> set_rows (session w) n t (filter (\<lambda>r. row_id r \<noteq> u) (tbl_rows t)))\<rparr>))"
  by (auto simp: cur_execute_def Let_def emit_def with_table_def table_exists_def split: option.splits)

lemma filter_absent: "u \<notin> set (map row_id rs) \<Longrightarrow> filter (\<lambda>r. row_id r = u) rs = []"
  by (induction rs) auto

lemma filter_absent_keep: "u \<notin> set (map row_id rs) \<Longrightarrow> filter (\<lambda>r. row_id r \<noteq> u) rs = rs"
  by (induction rs) auto

lemma get_run:
  assumes "table_exists (session w) (collection_name self)"
  shows "fst (get ver self vector_id w) =
     (case uuid_in vector_id of
        None \<Rightarrow> Inl invalid_uuid
      | Some u \<Rightarrow>
          (case filter (\<lambda>r. row_id r = u) (rows_of (session w) (collection_name self)) of
             [] \<Rightarrow> Inr None
           | r # _ \<Rightarrow> Inr (Some \<lparr>od_id = Some (row_id r), od_score = None, od_payload = row_payload r\<rparr>)))"
proof -
  let ?w0 = "conn_cursor (pool_getconn w)"
  from assms have te: "table_exists (session ?w0) (collection_name self)"
    and s: "session ?w0 = session w"
    by (simp_all add: driver_defs)
  show ?thesis
    unfolding get_def
    by (simp add: get_cursor_def pool_connection_def cursor_scope_def and_then_def
        exec_select_by_id [OF te] s ret_def row_tuple_def split: option.splits list.splits)
qed

lemma delete_run:
  assumes "table_exists (session w) (collection_name self)"
  shows "fst (delete ver self vector_id w) =
       (case uuid_in vector_id of None \<Rightarrow> Inl invalid_uuid | Some u \<Rightarrow> Inr ())
     \<and> (\<forall>u. uuid_in vector_id = Some u \<and> u \<notin> set (map row_id (rows_of (session w) (collection_name self)))
          \<longrightarrow> committed (snd (delete ver self vector_id w)) = session w)"
proof -
  let ?w0 = "conn_cursor (pool_getconn w)"
  from assms have te: "table_exists (session ?w0) (collection_name self)"
    and s: "session ?w0 = session w"
    by (simp_all add: driver_defs)
  from assms obtain t where t: "map_of (tables (session w)) (collection_name self) = Some t"
    by (auto simp: table_exists_def)
  from t have same: "set_rows (session w) (collection_name self) t (tbl_rows t) = session w"
    by (simp add: set_rows_def put_table_same)
  have b: "and_then (cur_execute (DeleteById (collection_name self) vector_id)) (\<lambda>_. ret ()) ?w0 =
      (case uuid_in vector_id of
         None \<Rightarrow> (Inl invalid_uuid, emit (Execute (DeleteById (collection_name self) vector_id)) ?w0)
       | Some u \<Rightarrow>
           (Inr (), (emit (Execute (DeleteById (collection_name self) vector_id)) ?w0)
              \<lparr>session := set_rows (session w) (collection_name self) t
                   (filter (\<lambda>r. row_id r \<noteq> u) (tbl_rows t))\<rparr>))"
    using t by (simp add: and_then_def exec_delete [OF te] s ret_def split: option.splits)
  show ?thesis
    unfolding delete_def
    using b t same
    by (auto simp add: get_cursor_def pool_connection_def cursor_scope_def
        driver_defs rows_of_def filter_absent_keep error_is_Exception
        split: option.splits)
qed

text \<open>
  C6, as the claim states it, fails. The identifier \<^verbatim>\<open>missing-id\<close> is not present in the
  collection, and it is not a UUID: the engine refuses it, and \<open>get\<close>, \<open>update\<close> and
  \<open>delete\<close> raise. And for an absent identifier that is a UUID, \<open>update\<close> with a vector
  of another dimensionality than the collection's raises too.
\<close>

theorem non_uuid_identifier_raises:
  "''missing-id'' \<notin> set (map row_id (rows_of (committed demo_world) (collection_name demo_self)))
   \<and> fst (get 2 demo_self ''missing-id'' demo_world) =
       Inl (StatementError ''invalid input syntax for type uuid'')
   \<and> fst (update 2 demo_self ''missing-id'' None (Some [(''k'', PInt 1)]) demo_world) =
       Inl (StatementError ''invalid input syntax for type uuid'')
   \<and> fst (delete 2 demo_self ''missing-id'' demo_world) =
       Inl (StatementError ''invalid input syntax for type uuid'')
   \<and> uuid_absent \<notin> set (map row_id (rows_of (committed demo_world) (collection_name demo_self)))
   \<and> fst (update 2 demo_self uuid_absent (Some [7]) None demo_world) =
       Inl (StatementError ''expected another number of dimensions'')"
  by (simp add: get_def update_def delete_def rows_of_def op_defs driver_defs demo_defs uuid_demo
      invalid_uuid_def wrong_dimensions_def)

text \<open>
  C6, amended. In a collection that exists, for an identifier that the engine reads as a
  UUID and that no stored row has: \<open>get\<close> returns \<open>None\<close> and raises nothing; \<open>delete\<close>
  returns without error and leaves the committed data as it was; and so does \<open>update\<close>,
  whatever payload it is given, with no vector, an empty one or one of the collection's
  dimensionality. For an identifier that is not a UUID the engine refuses the statement:
  \<open>get\<close> and \<open>delete\<close> raise, and \<open>update\<close> raises when it is given a vector or a payload
  that is not empty.
\<close>

theorem missing_identifier_is_soft:
  assumes "idle w" and "table_exists (committed w) (collection_name self)"
  shows "(\<forall>u. uuid_in vector_id = Some u \<and>
            u \<notin> set (map row_id (rows_of (committed w) (collection_name self))) \<longrightarrow>
            fst (get ver self vector_id w) = Inr None
          \<and> fst (delete ver self vector_id w) = Inr ()
          \<and> committed (snd (delete ver self vector_id w)) = committed w
          \<and> ((\<forall>v. vector = Some v \<and> v \<noteq> [] \<longrightarrow>
                  int (length v) = dims_of (committed w) (collection_name self)) \<longrightarrow>
                fst (update ver self vector_id vector payload w) = Inr ()
              \<and> committed (snd (update ver self vector_id vector payload w)) = committed w))
     \<and> (uuid_in vector_id = None \<longrightarrow>
            fst (get ver self vector_id w) = Inl (StatementError ''invalid input syntax for type uuid'')
          \<and> fst (delete ver self vector_id w) = Inl (StatementError ''invalid input syntax for type uuid'')
          \<and> ((\<exists>v. vector = Some v \<and> v \<noteq> []) \<or> (\<exists>p. payload = Some p \<and> p \<noteq> []) \<longrightarrow>
                fst (update ver self vector_id vector payload w) =
                  Inl (StatementError ''invalid input syntax for type uuid'')))"
proof -
  let ?n = "collection_name self"
  from assms have s: "session w = committed w" by (simp add: idle_def)
  with assms have te: "table_exists (session w) ?n" by simp
  note g = get_run [OF te, of ver vector_id] and d = delete_run [OF te, of ver vector_id]
    and u = update_run [OF te, of ver vector_id vector payload]
  have valid: "fst (get ver self vector_id w) = Inr None
          \<and> fst (delete ver self vector_id w) = Inr ()
          \<and> committed (snd (delete ver self vector_id w)) = committed w
          \<and> ((\<forall>v. vector = Some v \<and> v \<noteq> [] \<longrightarrow> int (length v) = dims_of (committed w) ?n) \<longrightarrow>
                fst (update ver self vector_id vector payload w) = Inr ()
              \<and> committed (snd (update ver self vector_id vector payload w)) = committed w)"
    if v: "uuid_in vector_id = Some u" and a: "u \<notin> set (map row_id (rows_of (committed w) ?n))" for u
  proof -
    from g d v a s have 1: "fst (get ver self vector_id w) = Inr None
          \<and> fst (delete ver self vector_id w) = Inr ()
          \<and> committed (snd (delete ver self vector_id w)) = committed w"
      by (simp add: filter_absent)
    have 2: "fst (update ver self vector_id vector payload w) = Inr ()
              \<and> committed (snd (update ver self vector_id vector payload w)) = committed w"
      if ok: "\<forall>v. vector = Some v \<and> v \<noteq> [] \<longrightarrow> int (length v) = dims_of (committed w) ?n"
    proof -
      from ok v s have e: "update_error (session w) ?n vector_id vector payload = None"
        by (auto simp: update_error_def split: option.splits)
      have "update_rows (session w) ?n (update_outcome (session w) ?n vector_id vector payload) = session w"
        using a s v e by (intro update_rows_same) (auto simp: update_outcome_def update_row_def split: option.splits)
      with u e s show ?thesis by simp
    qed
    from 1 2 show ?thesis by blast
  qed
  have invalid: "fst (get ver self vector_id w) = Inl (StatementError ''invalid input syntax for type uuid'')
          \<and> fst (delete ver self vector_id w) = Inl (StatementError ''invalid input syntax for type uuid'')
          \<and> ((\<exists>v. vector = Some v \<and> v \<noteq> []) \<or> (\<exists>p. payload = Some p \<and> p \<noteq> []) \<longrightarrow>
                fst (update ver self vector_id vector payload w) =
                  Inl (StatementError ''invalid input syntax for type uuid''))"
    if n: "uuid_in vector_id = None"
  proof -
    have "update_error (session w) ?n vector_id vector payload = Some invalid_uuid"
      if "(\<exists>v. vector = Some v \<and> v \<noteq> []) \<or> (\<exists>p. payload = Some p \<and> p \<noteq> [])"
      using that n by (auto simp: update_error_def update_stmts_def)
    with g d u n show ?thesis
      by (auto simp: invalid_uuid_def)
  qed
  from valid invalid show ?thesis by blast
qed

theorem missing_identifier_is_soft_witness:
  "idle demo_world \<and> table_exists (committed demo_world) (collection_name demo_self)
   \<and> uuid_in uuid_absent = Some uuid_absent
   \<and> uuid_absent \<notin> set (map row_id (rows_of (committed demo_world) (collection_name demo_self)))
   \<and> fst (get 2 demo_self uuid_absent demo_world) = Inr None
   \<and> fst (update 2 demo_self uuid_absent (Some [0, 0, 0, 1]) (Some [(''k'', PInt 1)]) demo_world) = Inr ()
   \<and> committed (snd (update 2 demo_self uuid_absent (Some [0, 0, 0, 1]) (Some [(''k'', PInt 1)]) demo_world)) = demo_db
   \<and> fst (delete 2 demo_self uuid_absent demo_world) = Inr ()
   \<and> committed (snd (delete 2 demo_self uuid_absent demo_world)) = demo_db
   \<and> uuid_in ''missing-id'' = None
   \<and> fst (get 2 demo_self ''missing-id'' demo_world) = Inl (StatementError ''invalid input syntax for type uuid'')"
proof -
  have h1: "idle demo_world"
    by (simp add: idle_def demo_defs)
  have h2: "table_exists (committed demo_world) (collection_name demo_self)"
    by (simp add: table_exists_def demo_defs)
  have h3: "uuid_absent \<notin> set (map row_id (rows_of (committed demo_world) (collection_name demo_self)))"
    by (simp add: rows_of_def demo_defs uuid_demo)
  have h4: "dims_of (committed demo_world) (collection_name demo_self) = 4"
    by (simp add: dims_of_def demo_defs)
  have c: "committed demo_world = demo_db"
    by (simp add: demo_world_def)
  show ?thesis
    using h1 h2 h3 h4
      missing_identifier_is_soft
        [OF h1 h2, where ver = 2 and vector_id = uuid_absent and vector = "Some [0, 0, 0, 1]"
           and payload = "Some [(''k'', PInt 1)]"]
      missing_identifier_is_soft
        [OF h1 h2, where ver = 2 and vector_id = "''missing-id''" and vector = None and payload = None]
    by (simp add: c uuid_demo)
qed

lemma outcome_payload_only:
  "update_outcome d n i None (Some P) =
     (\<lambda>r. if Some (row_id r) = uuid_in i \<and> P \<noteq> [] then r\<lparr>row_payload := Some P\<rparr> else r)"
  by (auto simp: update_outcome_def update_error_def update_stmts_def update_row_def fun_eq_iff
      split: option.splits)

lemma outcome_vector_only:
  "update_outcome d n i (Some V) None =
     (\<lambda>r. if Some (row_id r) = uuid_in i \<and> V \<noteq> [] \<and> int (length V) = dims_of d n
          then r\<lparr>row_vector := V\<rparr> else r)"
  by (auto simp: update_outcome_def update_error_def update_stmts_def update_row_def fun_eq_iff
      split: option.splits)

text \<open>
  C7. In a collection that exists, \<open>update\<close> with no vector and a payload \<open>P\<close> changes, in
  the row with the given identifier, the payload only (to \<open>P\<close>, when \<open>P\<close> is not empty): the
  vector of every row is as before. With a vector and no payload it is the other way
  round (the vector is stored when it has the collection's dimensionality). With
  neither, \<open>update\<close> sends no statement and the committed data is unchanged.
\<close>

theorem update_changes_only_given_fields:
  assumes "idle w" and "table_exists (committed w) (collection_name self)"
  shows "rows_of (committed (snd (update ver self vector_id None (Some P) w))) (collection_name self) =
       map (\<lambda>r. if Some (row_id r) = uuid_in vector_id \<and> P \<noteq> [] then r\<lparr>row_payload := Some P\<rparr> else r)
         (rows_of (committed w) (collection_name self))
     \<and> map row_vector (rows_of (committed (snd (update ver self vector_id None (Some P) w))) (collection_name self)) =
       map row_vector (rows_of (committed w) (collection_name self))
     \<and> rows_of (committed (snd (update ver self vector_id (Some V) None w))) (collection_name self) =
       map (\<lambda>r. if Some (row_id r) = uuid_in vector_id \<and> V \<noteq> []
                    \<and> int (length V) = dims_of (committed w) (collection_name self)
                 then r\<lparr>row_vector := V\<rparr> else r)
         (rows_of (committed w) (collection_name self))
     \<and> map row_payload (rows_of (committed (snd (update ver self vector_id (Some V) None w))) (collection_name self)) =
       map row_payload (rows_of (committed w) (collection_name self))
     \<and> fst (update ver self vector_id None None w) = Inr ()
     \<and> committed (snd (update ver self vector_id None None w)) = committed w
     \<and> issued w (snd (update ver self vector_id None None w)) =
         [Getconn, OpenCursor] @ (if ver = 3 then [CloseCursor, Commit, Putconn] else [Commit, CloseCursor, Putconn])"
proof -
  let ?n = "collection_name self"
  from assms have s: "session w = committed w" by (simp add: idle_def)
  with assms have te: "table_exists (session w) ?n" by simp
  have 1: "rows_of (committed (snd (update ver self vector_id None (Some P) w))) ?n =
       map (\<lambda>r. if Some (row_id r) = uuid_in vector_id \<and> P \<noteq> [] then r\<lparr>row_payload := Some P\<rparr> else r)
         (rows_of (committed w) ?n)"
    by (simp add: update_committed [OF assms] rows_of_update_rows outcome_payload_only)
  have 2: "rows_of (committed (snd (update ver self vector_id (Some V) None w))) ?n =
       map (\<lambda>r. if Some (row_id r) = uuid_in vector_id \<and> V \<noteq> []
                    \<and> int (length V) = dims_of (committed w) ?n
                 then r\<lparr>row_vector := V\<rparr> else r)
         (rows_of (committed w) ?n)"
    by (simp add: update_committed [OF assms] rows_of_update_rows outcome_vector_only)
  have e: "update_error (session w) ?n vector_id None None = None"
    by (simp add: update_error_def update_stmts_def)
  have "update_rows (session w) ?n (update_outcome (session w) ?n vector_id None None) = session w"
    by (intro update_rows_same) (auto simp: update_outcome_def update_row_def e split: option.splits)
  with update_run [OF te, of ver vector_id None None] e s
  have 3: "fst (update ver self vector_id None None w) = Inr ()
     \<and> committed (snd (update ver self vector_id None None w)) = committed w
     \<and> issued w (snd (update ver self vector_id None None w)) =
         [Getconn, OpenCursor] @ (if ver = 3 then [CloseCursor, Commit, Putconn] else [Commit, CloseCursor, Putconn])"
    by (auto simp: update_stmts_def)
  have 4: "map row_vector (map (\<lambda>r. if c r then r\<lparr>row_payload := Some P\<rparr> else r) rs) = map row_vector rs" for rs c
    by (induction rs) auto
  have 5: "map row_payload (map (\<lambda>r. if c r then r\<lparr>row_vector := V\<rparr> else r) rs) = map row_payload rs" for rs c
    by (induction rs) auto
  show ?thesis
    unfolding 1 2 4 5 using 3 by simp
qed

theorem update_changes_only_given_fields_witness:
  "idle demo_world \<and> table_exists (committed demo_world) (collection_name demo_self)
   \<and> rows_of (committed (snd (update 2 demo_self uuid_a None (Some [(''type'', PStr ''z'')]) demo_world))) ''mem'' =
       [\<lparr>row_id = uuid_a, row_vector = [1, 0, 0, 0], row_payload = Some [(''type'', PStr ''z'')]\<rparr>, row_b, row_c]
   \<and> rows_of (committed (snd (update 2 demo_self uuid_a (Some [0, 0, 0, 1]) None demo_world))) ''mem'' =
       [\<lparr>row_id = uuid_a, row_vector = [0, 0, 0, 1], row_payload = Some [(''type'', PStr ''x'')]\<rparr>, row_b, row_c]
   \<and> issued demo_world (snd (update 2 demo_self uuid_a None None demo_world)) =
       [Getconn, OpenCursor, Commit, CloseCursor, Putconn]"
proof -
  have h1: "idle demo_world"
    by (simp add: idle_def demo_defs)
  have h2: "table_exists (committed demo_world) (collection_name demo_self)"
    by (simp add: table_exists_def demo_defs)
  show ?thesis
    using h1 h2
      update_changes_only_given_fields
        [OF h1 h2, where ver = 2 and vector_id = uuid_a and P = "[(''type'', PStr ''z'')]" and V = "[0, 0, 0, 1]"]
    by (simp add: rows_of_def dims_of_def demo_defs uuid_demo)
qed

text \<open>
  C10. \<open>update\<close> tests its arguments for truthiness: called with an empty vector it is the
  same computation as with no vector, and called with an empty payload the same as with
  no payload. So in a collection that exists, a row whose payload is the empty object
  after an \<open>update\<close> had it before, and likewise for an empty vector.
\<close>

theorem update_tests_truthiness:
  "update ver self vector_id (Some []) payload = update ver self vector_id None payload
   \<and> update ver self vector_id vector (Some []) = update ver self vector_id vector None
   \<and> (idle w \<and> table_exists (committed w) (collection_name self) \<longrightarrow>
        list_all2 (\<lambda>r r'. row_id r' = row_id r
                      \<and> (row_payload r' = Some [] \<longrightarrow> row_payload r = Some [])
                      \<and> (row_vector r' = [] \<longrightarrow> row_vector r = []))
          (rows_of (committed w) (collection_name self))
          (rows_of (committed (snd (update ver self vector_id vector payload w))) (collection_name self)))"
proof -
  have a: "update ver self vector_id (Some []) payload = update ver self vector_id None payload"
    by (simp add: update_def)
  have b: "update ver self vector_id vector (Some []) = update ver self vector_id vector None"
    by (simp add: update_def)
  have c: "list_all2 (\<lambda>r r'. row_id r' = row_id r
                      \<and> (row_payload r' = Some [] \<longrightarrow> row_payload r = Some [])
                      \<and> (row_vector r' = [] \<longrightarrow> row_vector r = []))
          (rows_of (committed w) (collection_name self))
          (rows_of (committed (snd (update ver self vector_id vector payload w))) (collection_name self))"
    if "idle w" and "table_exists (committed w) (collection_name self)"
    by (auto simp: update_committed [OF that] rows_of_update_rows list_all2_map2 update_outcome_def
        update_row_def intro!: list_all2_refl split: option.splits)
  from a b c show ?thesis by blast
qed

theorem update_tests_truthiness_witness:
  "idle demo_world \<and> table_exists (committed demo_world) (collection_name demo_self)
   \<and> update 2 demo_self uuid_a (Some []) (Some []) = update 2 demo_self uuid_a None None
   \<and> committed (snd (update 2 demo_self uuid_a (Some []) (Some []) demo_world)) = demo_db
   \<and> list_all2 (\<lambda>r r'. row_id r' = row_id r
                      \<and> (row_payload r' = Some [] \<longrightarrow> row_payload r = Some [])
                      \<and> (row_vector r' = [] \<longrightarrow> row_vector r = []))
          (rows_of (committed demo_world) (collection_name demo_self))
          (rows_of (committed (snd (update 2 demo_self uuid_a (Some []) (Some []) demo_world))) (collection_name demo_self))"
proof -
  have h1: "idle demo_world"
    by (simp add: idle_def demo_defs)
  have h2: "table_exists (committed demo_world) (collection_name demo_self)"
    by (simp add: table_exists_def demo_defs)
  have e: "committed (snd (update 2 demo_self uuid_a (Some []) (Some []) demo_world)) = demo_db"
    by (simp add: update_def op_defs driver_defs demo_world_def)
  note t1 = update_tests_truthiness
    [where ver = 2 and self = demo_self and vector_id = uuid_a and vector = "Some []" and payload = "Some []"
       and w = demo_world]
  note t2 = update_tests_truthiness
    [where ver = 2 and self = demo_self and vector_id = uuid_a and vector = "Some []" and payload = None
       and w = demo_world]
  from t1 have a: "update 2 demo_self uuid_a (Some []) (Some []) = update 2 demo_self uuid_a (Some []) None"
    by blast
  from t2 have b: "update 2 demo_self uuid_a (Some []) None = update 2 demo_self uuid_a None None"
    by blast
  from a b have ab: "update 2 demo_self uuid_a (Some []) (Some []) = update 2 demo_self uuid_a None None"
    by (rule trans)
  from t1 h1 h2 have c: "list_all2 (\<lambda>r r'. row_id r' = row_id r
                      \<and> (row_payload r' = Some [] \<longrightarrow> row_payload r = Some [])
                      \<and> (row_vector r' = [] \<longrightarrow> row_vector r = []))
          (rows_of (committed demo_world) (collection_name demo_self))
          (rows_of (committed (snd (update 2 demo_self uuid_a (Some []) (Some []) demo_world))) (collection_name demo_self))"
    by blast
  from h1 h2 ab e c show ?thesis
    by blast
qed

subsection \<open>Search\<close>

lemma param_pairs_concat:
  "param_pairs (concat (map (\<lambda>(k, v). [k, py_str v]) es)) = map (\<lambda>(k, v). (k, py_str v)) es"
  by (induction es) auto

lemma length_concat_pairs: "length (concat (map (\<lambda>(k, v). [k, py_str v]) es)) = 2 * length es"
  by (induction es) auto

lemma search_stmt_entries:
  "search_stmt self q limit filters =
     SelectSearch (collection_name self) (where_text (length (filter_entries filters))) q
       (concat (map (\<lambda>(k, v). [k, py_str v]) (filter_entries filters))) limit"
  by (simp add: search_stmt_def filter_lists_entries filter_clause_replicate where_text_def)

lemma exec_search:
  "cur_execute (search_stmt self q limit filters) w =
     (case map_of (tables (session w)) (collection_name self) of
        None \<Rightarrow> (Inl undefined_table, emit (Execute (search_stmt self q limit filters)) w)
      | Some t \<Rightarrow>
          (case ranked (distance_op w) q limit (qualifying filters (tbl_rows t)) of
             Inl e \<Rightarrow> (Inl e, emit (Execute (search_stmt self q limit filters)) w)
           | Inr out \<Rightarrow>
               (Inr (ScoredRows (map (\<lambda>r. (row_id r, distance_op w q (row_vector r), row_payload r)) out)),
                emit (Execute (search_stmt self q limit filters)) w)))"
  unfolding search_stmt_entries
  by (simp add: cur_execute_def Let_def emit_def with_table_def eval_where_def length_concat_pairs
      param_pairs_concat qualifying_def split: option.splits sum.splits)

lemma search_result:
  "fst (search ver self query q limit filters w) =
     (case map_of (tables (session w)) (collection_name self) of
        None \<Rightarrow> Inl undefined_table
      | Some t \<Rightarrow>
          (case ranked (distance_op w) q limit (qualifying filters (tbl_rows t)) of
             Inl e \<Rightarrow> Inl e
           | Inr out \<Rightarrow> Inr (map (scored (distance_op w) q) out)))"
proof -
  let ?w0 = "conn_cursor (pool_getconn w)"
  have s: "session ?w0 = session w" "distance_op ?w0 = distance_op w"
    by (simp_all add: driver_defs)
  show ?thesis
    unfolding search_def
    by (simp add: and_then_def get_cursor_def pool_connection_def cursor_scope_def exec_search s ret_def
        scored_def split: option.splits sum.splits prod.splits)
qed

lemma length_nearest_first: "length (nearest_first dop q rs) = length rs"
  by (simp add: nearest_first_def)

lemma score_comp: "(\<lambda>r. the (od_score r)) \<circ> scored dop q = (\<lambda>r. dop q (row_vector r))"
  by (simp add: fun_eq_iff scored_def)

lemma sorted_scores_all:
  "sorted (map (\<lambda>r. the (od_score r)) (map (scored dop q) (nearest_first dop q rs)))"
  by (simp add: score_comp nearest_first_def)

lemma sorted_scores:
  "sorted (map (\<lambda>r. the (od_score r)) (map (scored dop q) (take k (nearest_first dop q rs))))"
proof -
  have "sorted (take k (map (\<lambda>r. the (od_score r)) (map (scored dop q) (nearest_first dop q rs))))"
    by (intro sorted_wrt_take sorted_scores_all)
  then show ?thesis by (simp add: take_map)
qed

lemma ranked_result:
  "ranked dop q limit rs = Inr out \<Longrightarrow>
     out = (case limit of None \<Rightarrow> nearest_first dop q rs | Some k \<Rightarrow> take (nat k) (nearest_first dop q rs))"
  by (auto simp: ranked_def apply_limit_def nearest_first_def split: option.splits if_splits)

lemma ranked_returns:
  assumes "\<forall>k. limit = Some k \<longrightarrow> 0 \<le> k"
    and "\<forall>r\<in>set rs. length (row_vector r) = length q"
  shows "ranked dop q limit rs =
     Inr (case limit of None \<Rightarrow> nearest_first dop q rs | Some k \<Rightarrow> take (nat k) (nearest_first dop q rs))"
  using assms
  by (auto simp: ranked_def apply_limit_def nearest_first_def list_ex_iff split: option.splits)

text \<open>
  C9. Whenever \<open>search\<close> returns a list, the list has at most \<open>limit\<close> records (for a
  limit that is a number), its scores are in non-decreasing order, and it has no more
  records than rows qualify. And \<open>search\<close> does return when the collection exists, the
  limit is not negative and the stored vectors have the length of the query: the
  qualifying rows, nearest first by the engine's distance to the query, cut at the
  limit; so the number of results is the smaller of the limit and the number of
  qualifying rows.
\<close>

theorem search_nearest_first_within_limit:
  "(\<forall>res. fst (search ver self query vectors limit filters w) = Inr res \<longrightarrow>
       (\<forall>k. limit = Some k \<longrightarrow> int (length res) \<le> k)
       \<and> sorted (map (\<lambda>r. the (od_score r)) res)
       \<and> length res \<le> length (qualifying filters (rows_of (session w) (collection_name self))))
   \<and> (table_exists (session w) (collection_name self) \<and> (\<forall>k. limit = Some k \<longrightarrow> 0 \<le> k)
        \<and> (\<forall>r\<in>set (rows_of (session w) (collection_name self)). length (row_vector r) = length vectors) \<longrightarrow>
       fst (search ver self query vectors limit filters w) =
         Inr (map (scored (distance_op w) vectors)
               (case limit of
                  None \<Rightarrow> nearest_first (distance_op w) vectors
                            (qualifying filters (rows_of (session w) (collection_name self)))
                | Some k \<Rightarrow> take (nat k) (nearest_first (distance_op w) vectors
                            (qualifying filters (rows_of (session w) (collection_name self))))))
       \<and> (\<forall>k. limit = Some k \<longrightarrow>
            length (case fst (search ver self query vectors limit filters w) of Inr res \<Rightarrow> res | Inl e \<Rightarrow> []) =
            min (nat k) (length (qualifying filters (rows_of (session w) (collection_name self))))))"
proof -
  let ?n = "collection_name self"
  let ?q = "qualifying filters (rows_of (session w) ?n)"
  have first: "(\<forall>k. limit = Some k \<longrightarrow> int (length res) \<le> k)
       \<and> sorted (map (\<lambda>r. the (od_score r)) res)
       \<and> length res \<le> length ?q"
    if "fst (search ver self query vectors limit filters w) = Inr res" for res
  proof -
    from that obtain t out where t: "map_of (tables (session w)) ?n = Some t"
      and r: "ranked (distance_op w) vectors limit (qualifying filters (tbl_rows t)) = Inr out"
      and res: "res = map (scored (distance_op w) vectors) out"
      by (auto simp: search_result split: option.splits sum.splits)
    from t have q: "qualifying filters (tbl_rows t) = ?q"
      by (simp add: rows_of_def)
    from r have nn: "\<forall>k. limit = Some k \<longrightarrow> 0 \<le> k"
      by (auto simp: ranked_def apply_limit_def split: option.splits if_splits)
    note out = ranked_result [OF r, unfolded q]
    show ?thesis
      using nn sorted_scores [of "distance_op w" vectors] sorted_scores_all [of "distance_op w" vectors]
      by (auto simp: res out length_nearest_first split: option.splits)
  qed
  have second: "fst (search ver self query vectors limit filters w) =
         Inr (map (scored (distance_op w) vectors)
               (case limit of
                  None \<Rightarrow> nearest_first (distance_op w) vectors ?q
                | Some k \<Rightarrow> take (nat k) (nearest_first (distance_op w) vectors ?q)))
       \<and> (\<forall>k. limit = Some k \<longrightarrow>
            length (case fst (search ver self query vectors limit filters w) of Inr res \<Rightarrow> res | Inl e \<Rightarrow> []) =
            min (nat k) (length ?q))"
    if te: "table_exists (session w) ?n" and nn: "\<forall>k. limit = Some k \<longrightarrow> 0 \<le> k"
      and len: "\<forall>r\<in>set (rows_of (session w) ?n). length (row_vector r) = length vectors"
  proof -
    from te obtain t where t: "map_of (tables (session w)) ?n = Some t"
      by (auto simp: table_exists_def)
    then have q: "qualifying filters (tbl_rows t) = ?q"
      by (simp add: rows_of_def)
    from len have "\<forall>r\<in>set ?q. length (row_vector r) = length vectors"
      by (simp add: qualifying_def)
    from ranked_returns [OF nn this, of "distance_op w"] t q
    show ?thesis
      by (auto simp: search_result length_nearest_first split: option.splits)
  qed
  from first second show ?thesis by blast
qed

theorem search_nearest_first_within_limit_witness:
  "table_exists (session demo_world) (collection_name demo_self)
   \<and> fst (search 2 demo_self ''q'' [0, 1, 0, 0] (Some 2) None demo_world) =
       Inr [\<lparr>od_id = Some uuid_b, od_score = Some 0, od_payload = Some [(''type'', PStr ''y'')]\<rparr>,
            \<lparr>od_id = Some uuid_a, od_score = Some 1, od_payload = Some [(''type'', PStr ''x'')]\<rparr>]
   \<and> fst (search 3 demo_self ''q'' [1, 0, 0, 0] (Some 5) (Some [(''type'', PStr ''x'')]) demo_world) =
       Inr [\<lparr>od_id = Some uuid_a, od_score = Some 0, od_payload = Some [(''type'', PStr ''x'')]\<rparr>]
   \<and> fst (search 2 demo_self ''q'' [0, 1] (Some 2) None demo_world) =
       Inl (StatementError ''different vector dimensions'')"
proof -
  have h: "table_exists (session demo_world) (collection_name demo_self)"
    by (simp add: table_exists_def demo_defs)
  have l: "\<forall>r\<in>set (rows_of (session demo_world) (collection_name demo_self)).
      length (row_vector r) = length [0, 1, 0, 0 :: real]"
    by (simp add: rows_of_def demo_defs)
  have e1: "fst (search 2 demo_self ''q'' [0, 1, 0, 0] (Some 2) None demo_world) =
       Inr [\<lparr>od_id = Some uuid_b, od_score = Some 0, od_payload = Some [(''type'', PStr ''y'')]\<rparr>,
            \<lparr>od_id = Some uuid_a, od_score = Some 1, od_payload = Some [(''type'', PStr ''x'')]\<rparr>]"
    by (simp add: search_def search_stmt_def filter_lists_def filter_clause_def op_defs driver_defs demo_defs)
  have e2: "fst (search 3 demo_self ''q'' [1, 0, 0, 0] (Some 5) (Some [(''type'', PStr ''x'')]) demo_world) =
       Inr [\<lparr>od_id = Some uuid_a, od_score = Some 0, od_payload = Some [(''type'', PStr ''x'')]\<rparr>]"
    by (simp add: search_def search_stmt_def filter_lists_def filter_clause_def op_defs driver_defs demo_defs)
  have e3: "fst (search 2 demo_self ''q'' [0, 1] (Some 2) None demo_world) =
       Inl (StatementError ''different vector dimensions'')"
    by (simp add: search_def search_stmt_def filter_lists_def filter_clause_def op_defs driver_defs demo_defs
        different_dimensions_def)
  show ?thesis
    using h l e1 e2 e3
      search_nearest_first_within_limit
        [where ver = 2 and self = demo_self and query = "''q''" and vectors = "[0, 1, 0, 0]"
           and limit = "Some 2" and filters = None and w = demo_world]
    by simp
qed

end
